theory Spec2Isabelle
  imports Complex_Main "HOL-Library.Log_Nat"
begin

section \<open>Interview coach: a shallow embedding of the agents and the frontend service\<close>

text \<open>
  JavaScript numbers are modelled as rationals (\<open>rat\<close>). Where a result depends on the
  rounding of the arithmetic (the average scores and the trend), the operations are those
  of IEEE binary64: the exact result rounded to the nearest double, ties to even.
  Infinities, \<open>NaN\<close> and the negative zero have no counterpart. The keyword score, the
  score variation and the index of the chosen question are computed exactly; what is
  stated about them (a range, membership among the candidates) does not depend on the
  rounding. \<open>Date.now()\<close> and \<open>new Date()\<close> are a parameter \<open>now\<close>, \<open>Math.random()\<close> is a
  parameter \<open>rnd\<close> (the runtime draws it from \<open>[0, 1)\<close>), and the answer of a remote
  service is a parameter of the handler that awaits it.
\<close>

subsection \<open>Questions and the question banks\<close>

datatype difficulty = Easy | Medium | Hard

record InterviewQuestion =
  q_id :: string
  q_category :: string
  q_difficulty :: difficulty
  q_question :: string
  q_context :: string
  q_expectedElements :: "string list"

text \<open>\<open>InterviewerAgent.initializeQuestionBank\<close>: the six questions of the agent.\<close>

definition intro_1 :: InterviewQuestion where
  "intro_1 = \<lparr> q_id = ''intro-1'', q_category = ''introduction'', q_difficulty = Easy,
     q_question = ''Tell me about yourself and why you're interested in this position. I'm looking for insights into your background, motivations, and how your experience aligns with the role.'',
     q_context = ''Opening question to assess communication skills and self-awareness'',
     q_expectedElements = [''background summary'', ''relevant experience'', ''motivation'', ''role connection''] \<rparr>"

definition experience_1 :: InterviewQuestion where
  "experience_1 = \<lparr> q_id = ''experience-1'', q_category = ''experience'', q_difficulty = Medium,
     q_question = ''Can you describe a challenging project you've worked on and how you overcame obstacles? I'm particularly interested in your problem-solving approach and collaboration skills.'',
     q_context = ''Behavioral question to assess problem-solving and teamwork'',
     q_expectedElements = [''specific example'', ''challenges identified'', ''actions taken'', ''results achieved'', ''lessons learned''] \<rparr>"

definition technical_1 :: InterviewQuestion where
  "technical_1 = \<lparr> q_id = ''technical-1'', q_category = ''technical'', q_difficulty = Medium,
     q_question = ''Walk me through your approach to debugging a complex technical issue. What tools and methodologies do you use?'',
     q_context = ''Technical competency and systematic thinking assessment'',
     q_expectedElements = [''systematic approach'', ''tools mentioned'', ''debugging strategies'', ''documentation practices''] \<rparr>"

definition leadership_1 :: InterviewQuestion where
  "leadership_1 = \<lparr> q_id = ''leadership-1'', q_category = ''leadership'', q_difficulty = Hard,
     q_question = ''Describe a time when you had to lead a team through a difficult situation or major change. How did you ensure everyone stayed motivated and aligned?'',
     q_context = ''Leadership and change management capabilities'',
     q_expectedElements = [''leadership style'', ''communication strategies'', ''team motivation'', ''change management'', ''outcomes''] \<rparr>"

definition conflict_1 :: InterviewQuestion where
  "conflict_1 = \<lparr> q_id = ''conflict-1'', q_category = ''behavioral'', q_difficulty = Hard,
     q_question = ''Tell me about a time when you disagreed with your manager or team lead on an important decision. How did you handle the situation?'',
     q_context = ''Conflict resolution and professional maturity assessment'',
     q_expectedElements = [''specific situation'', ''communication approach'', ''compromise or resolution'', ''relationship preservation''] \<rparr>"

definition growth_1 :: InterviewQuestion where
  "growth_1 = \<lparr> q_id = ''growth-1'', q_category = ''development'', q_difficulty = Medium,
     q_question = ''What's the most significant skill or knowledge area you've developed in the past year? How did you approach learning it?'',
     q_context = ''Continuous learning and growth mindset evaluation'',
     q_expectedElements = [''specific skill/knowledge'', ''learning approach'', ''application examples'', ''impact on work''] \<rparr>"

definition initializeQuestionBank :: "InterviewQuestion list" where
  "initializeQuestionBank =
     [intro_1, experience_1, technical_1, leadership_1, conflict_1, growth_1]"

text \<open>\<open>InterviewService.initializeQuestionBank\<close>: the same six questions and two more.\<close>

definition innovation_1 :: InterviewQuestion where
  "innovation_1 = \<lparr> q_id = ''innovation-1'', q_category = ''innovation'', q_difficulty = Hard,
     q_question = ''Describe a time when you had to think outside the box to solve a problem. What was your creative process and what was the outcome?'',
     q_context = ''Creative thinking and innovation capabilities'',
     q_expectedElements = [''creative problem-solving'', ''process description'', ''innovative solution'', ''measurable outcome''] \<rparr>"

definition pressure_1 :: InterviewQuestion where
  "pressure_1 = \<lparr> q_id = ''pressure-1'', q_category = ''behavioral'', q_difficulty = Medium,
     q_question = ''Tell me about a time when you had to work under significant pressure or tight deadlines. How did you manage the stress and ensure quality?'',
     q_context = ''Stress management and performance under pressure'',
     q_expectedElements = [''pressure situation'', ''stress management'', ''quality maintenance'', ''time management''] \<rparr>"

definition service_initializeQuestionBank :: "InterviewQuestion list" where
  "service_initializeQuestionBank =
     [intro_1, experience_1, technical_1, leadership_1, conflict_1, growth_1,
      innovation_1, pressure_1]"

subsection \<open>Session contexts of the interviewer agent\<close>

record candidateProfile =
  cp_name :: string
  cp_role :: string
  cp_experience :: string
  cp_industry :: string

text \<open>
  The object that \<open>handleCandidateAnswer\<close> pushes onto \<open>questionsAsked\<close>. It has exactly
  these four properties; \<open>question\<close> is \<open>undefined\<close> (\<open>None\<close>) when the answered id is not
  in the bank.
\<close>

record askedEntry =
  questionId :: string
  question :: "string option"
  answer :: string
  timestamp :: nat

text \<open>
  Reading \<open>.category\<close> of such an entry: the property was never written, so JavaScript
  yields \<open>undefined\<close>, here \<open>None\<close>.
\<close>

definition entry_category :: "askedEntry \<Rightarrow> string option" where
  "entry_category e = None"

record sessionCtx =
  currentQuestionIndex :: nat
  questionsAsked :: "askedEntry list"
  candidateProfile :: "candidateProfile option"
  startTime :: nat
  difficulty :: difficulty

text \<open>\<open>xs[i]\<close> on a JavaScript array: \<open>undefined\<close> outside the array.\<close>

definition js_index :: "'a list \<Rightarrow> int \<Rightarrow> 'a option" where
  "js_index xs i = (if 0 \<le> i \<and> i < int (length xs) then Some (xs ! nat i) else None)"

text \<open>The local constants of \<open>selectNextQuestion\<close>, one definition each.\<close>

definition askedQuestionIds :: "sessionCtx \<Rightarrow> string list" where
  "askedQuestionIds ctx = map questionId (questionsAsked ctx)"

definition availableQuestions :: "InterviewQuestion list \<Rightarrow> sessionCtx \<Rightarrow> InterviewQuestion list" where
  "availableQuestions bank ctx =
     filter (\<lambda>q. \<not> List.member (askedQuestionIds ctx) (q_id q) \<and>
                 (q_difficulty q = difficulty ctx \<or> length (questionsAsked ctx) = 0)) bank"

definition remainingQuestions :: "InterviewQuestion list \<Rightarrow> sessionCtx \<Rightarrow> InterviewQuestion list" where
  "remainingQuestions bank ctx =
     filter (\<lambda>q. \<not> List.member (askedQuestionIds ctx) (q_id q)) bank"

definition lastCategory :: "sessionCtx \<Rightarrow> string option" where
  "lastCategory ctx =
     (if length (questionsAsked ctx) > 0
      then entry_category (questionsAsked ctx ! (length (questionsAsked ctx) - 1))
      else None)"

definition differentCategoryQuestions :: "InterviewQuestion list \<Rightarrow> sessionCtx \<Rightarrow> InterviewQuestion list" where
  "differentCategoryQuestions bank ctx =
     filter (\<lambda>q. Some (q_category q) \<noteq> lastCategory ctx) (availableQuestions bank ctx)"

definition selectedQuestions :: "InterviewQuestion list \<Rightarrow> sessionCtx \<Rightarrow> InterviewQuestion list" where
  "selectedQuestions bank ctx =
     (if length (differentCategoryQuestions bank ctx) > 0
      then differentCategoryQuestions bank ctx
      else availableQuestions bank ctx)"

text \<open>
  \<open>InterviewerAgent.selectNextQuestion\<close>. \<open>None\<close> is the \<open>null\<close> (or \<open>undefined\<close>) the
  caller tests with \<open>!nextQuestion\<close>.
\<close>

definition selectNextQuestion ::
  "InterviewQuestion list \<Rightarrow> (string \<rightharpoonup> sessionCtx) \<Rightarrow> string \<Rightarrow> rat \<Rightarrow> InterviewQuestion option" where
  "selectNextQuestion bank sessionContext sessionId rnd =
     (case sessionContext sessionId of
        None \<Rightarrow> None
      | Some ctx \<Rightarrow>
          if length (availableQuestions bank ctx) = 0 then
            (if length (remainingQuestions bank ctx) = 0 then None
             else js_index (remainingQuestions bank ctx) 0)
          else
            js_index (selectedQuestions bank ctx)
              \<lfloor>rnd * of_nat (length (selectedQuestions bank ctx))\<rfloor>)"

subsection \<open>Printing numbers\<close>

text \<open>The decimal digits of a natural number, as template literals print \<open>Date.now()\<close>.\<close>

function string_of_nat :: "nat \<Rightarrow> string" where
  "string_of_nat n =
     (if n < 10 then [char_of (48 + n)]
      else string_of_nat (n div 10) @ [char_of (48 + n mod 10)])"
  by pat_completeness auto
termination
  by (relation "measure (\<lambda>n. n)") auto

declare string_of_nat.simps [simp del]

subsection \<open>Double-precision arithmetic\<close>

text \<open>
  \<open>binary_exponent x\<close>, for a positive \<open>x\<close>, is the integer \<open>e\<close> with
  \<open>2 powi e \<le> x < 2 powi (e + 1)\<close>, found from the bit lengths of numerator and
  denominator.
\<close>

definition binary_exponent :: "rat \<Rightarrow> int" where
  "binary_exponent x =
     (let e0 = bitlen (fst (quotient_of x)) - bitlen (snd (quotient_of x))
      in if 2 powi e0 \<le> x then e0 else e0 - 1)"

definition round_half_even :: "rat \<Rightarrow> int" where
  "round_half_even y =
     (if y - of_int \<lfloor>y\<rfloor> < 1 / 2 then \<lfloor>y\<rfloor>
      else if y - of_int \<lfloor>y\<rfloor> > 1 / 2 then \<lfloor>y\<rfloor> + 1
      else if even \<lfloor>y\<rfloor> then \<lfloor>y\<rfloor> else \<lfloor>y\<rfloor> + 1)"

text \<open>
  The double nearest to \<open>x\<close>, ties to even: a multiple of the unit in the last place of
  the binade of \<open>x\<close> (53 significant bits, exponents from \<open>-1022\<close>, below that the
  subnormal spacing \<open>2 powi (- 1074)\<close>). A result beyond the largest double is not modelled.
\<close>

definition ulp_exponent :: "rat \<Rightarrow> int" where
  "ulp_exponent x = max (binary_exponent x) (- 1022)"

definition double :: "rat \<Rightarrow> rat" where
  "double x =
     (if x = 0 then 0
      else
        (let ulp = 2 powi (ulp_exponent \<bar>x\<bar> - 52)
         in sgn x * (of_int (round_half_even (\<bar>x\<bar> / ulp)) * ulp)))"

text \<open>The operators \<open>+\<close>, \<open>-\<close>, \<open>*\<close> and \<open>/\<close> on doubles: the exact result, rounded.\<close>

definition fadd :: "rat \<Rightarrow> rat \<Rightarrow> rat" where
  "fadd x y = double (x + y)"

definition fsub :: "rat \<Rightarrow> rat \<Rightarrow> rat" where
  "fsub x y = double (x - y)"

definition fmul :: "rat \<Rightarrow> rat \<Rightarrow> rat" where
  "fmul x y = double (x * y)"

definition fdiv :: "rat \<Rightarrow> rat \<Rightarrow> rat" where
  "fdiv x y = double (x / y)"

subsection \<open>The interviewer agent: state, messages and handlers\<close>

record TTSConfig =
  voiceId :: string
  modelId :: string
  stability :: rat
  similarityBoost :: rat

record InterviewerAgent =
  elevenLabsApiKey :: string
  sessionContext :: "string \<rightharpoonup> sessionCtx"
  questionBank :: "InterviewQuestion list"
  defaultTTSConfig :: TTSConfig

text \<open>The constructor: the default voice settings, the six questions, no session.\<close>

definition new_InterviewerAgent :: "string \<Rightarrow> InterviewerAgent" where
  "new_InterviewerAgent apiKey =
     \<lparr> elevenLabsApiKey = apiKey,
       sessionContext = Map.empty,
       questionBank = initializeQuestionBank,
       defaultTTSConfig = \<lparr> voiceId = ''9BWtsMINqrJLrRacOk9x'', modelId = ''eleven_multilingual_v2'',
                            stability = 1 / 2, similarityBoost = 3 / 4 \<rparr> \<rparr>"

record interviewSummary =
  summary_sessionId :: string
  summary_totalQuestions :: nat
  summary_duration :: int
  summary_categoriesCovered :: "string option list"
  summary_finalDifficulty :: difficulty

text \<open>
  The \<open>content\<close> objects of the messages the agent sends.
  \<open>QuestionContent questionId question category audioUrl context\<close>,
  \<open>AnswerContent questionId question answer expectedElements category questionsAsked currentDifficulty\<close>,
  \<open>AudioGenerated audioUrl originalText\<close> is the command \<open>audio-generated\<close> and
  \<open>InterviewComplete summary\<close> the command \<open>interview-complete\<close>.
\<close>

datatype content =
    QuestionContent string string string string string
  | AnswerContent string "string option" string "string list option" "string option" nat difficulty
  | AudioGenerated string string
  | InterviewComplete "interviewSummary option"

record agentMessage =
  msg_id :: string
  msg_from :: string
  msg_to :: string
  msg_type :: string
  msg_content :: content
  msg_sessionId :: string
  msg_timestamp :: nat

text \<open>What a handler emits: \<open>emit('send-message', m)\<close> or \<open>emit('error', {type, error, sessionId})\<close>.\<close>

datatype emitted = SendMessage agentMessage | ErrorEvent string string

text \<open>
  What a handler reads from outside: the clock, \<open>Math.random()\<close>, and the outcome of the
  text-to-speech request (\<open>None\<close> when the request throws or is not \<open>ok\<close>, else the
  object URL of the audio).
\<close>

record env =
  now :: nat
  rnd :: rat
  tts :: "string option"

definition generateQuestionAudio :: "InterviewerAgent \<Rightarrow> env \<Rightarrow> string" where
  "generateQuestionAudio agent e =
     (if elevenLabsApiKey agent = [] then []
      else (case tts e of None \<Rightarrow> [] | Some audioUrl \<Rightarrow> audioUrl))"

text \<open>\<open>[...new Set(xs)]\<close>: the distinct elements in the order of their first occurrence.\<close>

definition js_set_spread :: "'a list \<Rightarrow> 'a list" where
  "js_set_spread xs = rev (remdups (rev xs))"

definition generateInterviewSummary :: "InterviewerAgent \<Rightarrow> env \<Rightarrow> string \<Rightarrow> interviewSummary option" where
  "generateInterviewSummary agent e sessionId =
     (case sessionContext agent sessionId of
        None \<Rightarrow> None
      | Some ctx \<Rightarrow>
          Some \<lparr> summary_sessionId = sessionId,
                 summary_totalQuestions = length (questionsAsked ctx),
                 summary_duration = int (now e) - int (startTime ctx),
                 summary_categoriesCovered = js_set_spread (map entry_category (questionsAsked ctx)),
                 summary_finalDifficulty = difficulty ctx \<rparr>)"

definition questionMessage :: "env \<Rightarrow> string \<Rightarrow> InterviewQuestion \<Rightarrow> string \<Rightarrow> agentMessage" where
  "questionMessage e sessionId q audioUrl =
     \<lparr> msg_id = ''q-'' @ string_of_nat (now e),
       msg_from = ''interviewer-agent'',
       msg_to = ''frontend-agent'',
       msg_type = ''question'',
       msg_content = QuestionContent (q_id q) (q_question q) (q_category q) audioUrl (q_context q),
       msg_sessionId = sessionId,
       msg_timestamp = now e \<rparr>"

definition handleGenerateAudio :: "env \<Rightarrow> string \<Rightarrow> string \<Rightarrow> InterviewerAgent \<Rightarrow> InterviewerAgent \<times> emitted list" where
  "handleGenerateAudio e sessionId text agent =
     (agent,
      [SendMessage \<lparr> msg_id = ''audio-'' @ string_of_nat (now e),
                     msg_from = ''interviewer-agent'',
                     msg_to = ''frontend-agent'',
                     msg_type = ''command'',
                     msg_content = AudioGenerated (generateQuestionAudio agent e) text,
                     msg_sessionId = sessionId,
                     msg_timestamp = now e \<rparr>])"

text \<open>
  \<open>handleStartSession\<close>. When \<open>selectNextQuestion\<close> returns \<open>null\<close>, reading
  \<open>firstQuestion.question\<close> throws and the handler's \<open>catch\<close> emits the error
  \<open>session-start\<close>; the context stored before stays.
\<close>

definition handleStartSession ::
  "env \<Rightarrow> string \<Rightarrow> candidateProfile option \<Rightarrow> InterviewerAgent \<Rightarrow> InterviewerAgent \<times> emitted list" where
  "handleStartSession e sessionId profile agent =
     (let agent' = agent \<lparr> sessionContext := (sessionContext agent)(sessionId \<mapsto>
                      \<lparr> currentQuestionIndex = 0,
                        questionsAsked = [],
                        candidateProfile = profile,
                        startTime = now e,
                        difficulty = Easy \<rparr>) \<rparr>
      in case selectNextQuestion (questionBank agent') (sessionContext agent') sessionId (rnd e) of
           None \<Rightarrow> (agent', [ErrorEvent ''session-start'' sessionId])
         | Some firstQuestion \<Rightarrow>
             (agent', [SendMessage (questionMessage e sessionId firstQuestion
                                      (generateQuestionAudio agent' e))]))"

text \<open>\<open>handleCandidateAnswer\<close>: forward the answer to the analyzer, then record it.\<close>

definition handleCandidateAnswer ::
  "env \<Rightarrow> string \<Rightarrow> string \<Rightarrow> string \<Rightarrow> InterviewerAgent \<Rightarrow> InterviewerAgent \<times> emitted list" where
  "handleCandidateAnswer e sessionId answer' questionId' agent =
     (case sessionContext agent sessionId of
        None \<Rightarrow> (agent, [ErrorEvent ''answer-handling'' sessionId])
      | Some ctx \<Rightarrow>
          (let q = List.find (\<lambda>q. q_id q = questionId') (questionBank agent);
               message =
                 \<lparr> msg_id = ''a-'' @ string_of_nat (now e),
                   msg_from = ''interviewer-agent'',
                   msg_to = ''analyzer-agent'',
                   msg_type = ''answer'',
                   msg_content = AnswerContent questionId' (map_option q_question q) answer'
                                   (map_option q_expectedElements q) (map_option q_category q)
                                   (length (questionsAsked ctx)) (difficulty ctx),
                   msg_sessionId = sessionId,
                   msg_timestamp = now e \<rparr>;
               ctx' = ctx \<lparr> questionsAsked := questionsAsked ctx @
                              [\<lparr> questionId = questionId',
                                 question = map_option q_question q,
                                 answer = answer',
                                 timestamp = now e \<rparr>] \<rparr>
           in (agent \<lparr> sessionContext := (sessionContext agent)(sessionId \<mapsto> ctx') \<rparr>,
               [SendMessage message])))"

text \<open>
  The \<open>previousFeedback\<close> of a next-question request, as far as the handler reads it:
  its \<open>score\<close>, \<open>None\<close> when the property is missing.
\<close>

record previousFeedback =
  fb_score :: "rat option"

text \<open>\<open>previousFeedback?.score\<close>: \<open>undefined\<close> when the feedback or its score is missing.\<close>

definition optional_score :: "previousFeedback option \<Rightarrow> rat option" where
  "optional_score pf = (case pf of None \<Rightarrow> None | Some f \<Rightarrow> fb_score f)"

text \<open>
  The difficulty adjustment of \<open>handleNextQuestion\<close>. The guard
  \<open>if (previousFeedback?.score)\<close> tests JavaScript truthiness: \<open>undefined\<close> and the
  number \<open>0\<close> are both falsy and skip the adjustment.
\<close>

definition adjustDifficulty :: "previousFeedback option \<Rightarrow> sessionCtx \<Rightarrow> sessionCtx" where
  "adjustDifficulty pf ctx =
     (case optional_score pf of
        None \<Rightarrow> ctx
      | Some s \<Rightarrow>
          if s = 0 then ctx
          else if s \<ge> 8 then ctx \<lparr> difficulty := Hard \<rparr>
          else if s \<ge> 6 then ctx \<lparr> difficulty := Medium \<rparr>
          else ctx \<lparr> difficulty := Easy \<rparr>)"

definition handleNextQuestion ::
  "env \<Rightarrow> string \<Rightarrow> previousFeedback option \<Rightarrow> InterviewerAgent \<Rightarrow> InterviewerAgent \<times> emitted list" where
  "handleNextQuestion e sessionId pf agent =
     (case sessionContext agent sessionId of
        None \<Rightarrow> (agent, [ErrorEvent ''next-question'' sessionId])
      | Some ctx \<Rightarrow>
          (let agent' = agent \<lparr> sessionContext :=
                           (sessionContext agent)(sessionId \<mapsto> adjustDifficulty pf ctx) \<rparr>
           in case selectNextQuestion (questionBank agent') (sessionContext agent') sessionId (rnd e) of
                None \<Rightarrow>
                  (agent',
                   [SendMessage \<lparr> msg_id = ''end-'' @ string_of_nat (now e),
                                  msg_from = ''interviewer-agent'',
                                  msg_to = ''frontend-agent'',
                                  msg_type = ''command'',
                                  msg_content = InterviewComplete (generateInterviewSummary agent' e sessionId),
                                  msg_sessionId = sessionId,
                                  msg_timestamp = now e \<rparr>])
              | Some nextQuestion \<Rightarrow>
                  (agent', [SendMessage (questionMessage e sessionId nextQuestion
                                           (generateQuestionAudio agent' e))])))"

text \<open>\<open>updateTTSConfig\<close> with a \<open>Partial<TTSConfig>\<close>: the given properties replace the old ones.\<close>

record partialTTSConfig =
  p_voiceId :: "string option"
  p_modelId :: "string option"
  p_stability :: "rat option"
  p_similarityBoost :: "rat option"

definition updateTTSConfig :: "partialTTSConfig \<Rightarrow> InterviewerAgent \<Rightarrow> InterviewerAgent" where
  "updateTTSConfig c agent =
     agent \<lparr> defaultTTSConfig :=
       \<lparr> voiceId = (case p_voiceId c of None \<Rightarrow> voiceId (defaultTTSConfig agent) | Some v \<Rightarrow> v),
         modelId = (case p_modelId c of None \<Rightarrow> modelId (defaultTTSConfig agent) | Some v \<Rightarrow> v),
         stability = (case p_stability c of None \<Rightarrow> stability (defaultTTSConfig agent) | Some v \<Rightarrow> v),
         similarityBoost =
           (case p_similarityBoost c of None \<Rightarrow> similarityBoost (defaultTTSConfig agent) | Some v \<Rightarrow> v) \<rparr> \<rparr>"

text \<open>
  \<open>addCustomQuestion\<close>: the question is appended under a fresh id
  \<open>custom-<Date.now()>-<nine random characters>\<close>; the random characters are the
  parameter \<open>suffix\<close>.
\<close>

definition addCustomQuestion :: "env \<Rightarrow> string \<Rightarrow> InterviewQuestion \<Rightarrow> InterviewerAgent \<Rightarrow> InterviewerAgent" where
  "addCustomQuestion e suffix q agent =
     agent \<lparr> questionBank := questionBank agent @
       [q \<lparr> q_id := ''custom-'' @ string_of_nat (now e) @ ''-'' @ suffix \<rparr>] \<rparr>"

text \<open>
  The operations of the agent: its four message handlers, its two public setters and
  \<open>healthCheck\<close>, which only reads the state (its report is not modelled).
\<close>

datatype interviewerOp =
    StartSession string "candidateProfile option"
  | CandidateAnswer string string string
  | NextQuestion string "previousFeedback option"
  | GenerateAudio string string
  | UpdateTTSConfig partialTTSConfig
  | AddCustomQuestion string InterviewQuestion
  | HealthCheck

fun interviewerStep :: "env \<Rightarrow> interviewerOp \<Rightarrow> InterviewerAgent \<Rightarrow> InterviewerAgent \<times> emitted list" where
  "interviewerStep e (StartSession sessionId profile) agent = handleStartSession e sessionId profile agent"
| "interviewerStep e (CandidateAnswer sessionId a qid) agent = handleCandidateAnswer e sessionId a qid agent"
| "interviewerStep e (NextQuestion sessionId pf) agent = handleNextQuestion e sessionId pf agent"
| "interviewerStep e (GenerateAudio sessionId text) agent = handleGenerateAudio e sessionId text agent"
| "interviewerStep e (UpdateTTSConfig c) agent = (updateTTSConfig c agent, [])"
| "interviewerStep e (AddCustomQuestion suffix q) agent = (addCustomQuestion e suffix q agent, [])"
| "interviewerStep e HealthCheck agent = (agent, [])"

subsection \<open>The frontend interview service\<close>

record AnalysisResult =
  score :: rat
  strengths :: "string list"
  weaknesses :: "string list"
  tips :: "string list"
  detailedFeedback :: string
  categoryScore :: rat
  improvementAreas :: "string list"

datatype messageType = TQuestion | TAnswer | TFeedback

record InterviewMessage =
  im_id :: string
  im_type :: messageType
  im_content :: string
  im_timestamp :: nat
  im_feedback :: "AnalysisResult option"

record InterviewService =
  svc_sessionId :: "string option"
  messageHistory :: "InterviewMessage list"
  svc_currentQuestionIndex :: nat
  svc_questionBank :: "InterviewQuestion list"

definition new_InterviewService :: InterviewService where
  "new_InterviewService =
     \<lparr> svc_sessionId = None, messageHistory = [], svc_currentQuestionIndex = 0,
       svc_questionBank = service_initializeQuestionBank \<rparr>"

text \<open>\<open>Math.round\<close>: the nearest integer, a half rounded up.\<close>

definition js_round :: "rat \<Rightarrow> rat" where
  "js_round x = of_int \<lfloor>x + 1 / 2\<rfloor>"

text \<open>\<open>s.split(' ')\<close>: the pieces between the spaces, never an empty array.\<close>

fun js_split :: "char \<Rightarrow> string \<Rightarrow> string list" where
  "js_split c [] = [[]]"
| "js_split c (x # xs) =
     (if x = c then [] # js_split c xs
      else (case js_split c xs of [] \<Rightarrow> [[x]] | w # ws \<Rightarrow> (x # w) # ws))"

text \<open>\<open>toLowerCase\<close> on the ASCII letters; other characters are left as they are.\<close>

definition lower_char :: "char \<Rightarrow> char" where
  "lower_char c =
     (if 65 \<le> (of_char c :: nat) \<and> (of_char c :: nat) \<le> 90
      then char_of ((of_char c :: nat) + 32) else c)"

definition toLowerCase :: "string \<Rightarrow> string" where
  "toLowerCase s = map lower_char s"

text \<open>\<open>s.includes(k)\<close>: \<open>k\<close> occurs in \<open>s\<close> as a contiguous piece.\<close>

fun js_includes :: "string \<Rightarrow> string \<Rightarrow> bool" where
  "js_includes [] k = (k = [])"
| "js_includes (x # xs) k = (take (length k) (x # xs) = k \<or> js_includes xs k)"

text \<open>\<open>InterviewService.calculateScore\<close>.\<close>

definition wordCount :: "string \<Rightarrow> nat" where
  "wordCount answer' = length (js_split CHR '' '' answer')"

definition calculateScore :: "string \<Rightarrow> string list \<Rightarrow> rat" where
  "calculateScore answer' expectedKeywords =
     (let answerLower = toLowerCase answer';
          score0 = min 5 (of_nat (wordCount answer') / 20);
          score1 = foldl (\<lambda>sc keyword.
                      if js_includes answerLower (toLowerCase keyword) then sc + 1 else sc)
                    score0 expectedKeywords;
          score2 = (if wordCount answer' > 100 then score1 + 1 / 2 else score1);
          score3 = (if wordCount answer' > 200 then score2 + 1 / 2 else score2)
      in min 9 score3)"

record template =
  t_score :: rat
  t_strengths :: "string list"
  t_weaknesses :: "string list"
  t_tips :: "string list"

text \<open>The four entries of \<open>analysisTemplates\<close> in \<open>generateFeedback\<close>.\<close>

definition template_introduction :: "string \<Rightarrow> template" where
  "template_introduction answer' =
     \<lparr> t_score = calculateScore answer' [''background'', ''experience'', ''motivation''],
       t_strengths = [''Clear structure and logical flow'', ''Relevant experience mentioned'',
                      ''Confident tone and enthusiasm''],
       t_weaknesses = [''Could provide more specific examples'',
                       ''Consider mentioning quantifiable achievements'',
                       ''Opportunity to better connect experience to role''],
       t_tips = [''Use the STAR method (Situation, Task, Action, Result) for stronger examples'',
                 ''Quantify your achievements with numbers and metrics when possible'',
                 ''Research the company more deeply to show specific interest''] \<rparr>"

definition template_experience :: "string \<Rightarrow> template" where
  "template_experience answer' =
     \<lparr> t_score = calculateScore answer' [''challenge'', ''solution'', ''result'', ''collaboration''],
       t_strengths = [''Specific project example provided'', ''Clear problem identification'',
                      ''Good demonstration of problem-solving skills'',
                      ''Mentioned collaboration effectively''],
       t_weaknesses = [''Could elaborate more on the results achieved'',
                       ''Missing discussion of lessons learned'',
                       ''Limited mention of stakeholder management''],
       t_tips = [''Always conclude with measurable results and impact'',
                 ''Include what you learned from the experience'',
                 ''Mention how you managed different stakeholders during challenges''] \<rparr>"

definition template_technical :: "string \<Rightarrow> template" where
  "template_technical answer' =
     \<lparr> t_score = calculateScore answer' [''systematic'', ''tools'', ''process'', ''testing''],
       t_strengths = [''Methodical approach to problem-solving'',
                      ''Good understanding of debugging tools'',
                      ''Clear explanation of technical concepts''],
       t_weaknesses = [''Could provide more specific tool examples'',
                       ''Missing discussion of prevention strategies'',
                       ''Limited mention of documentation practices''],
       t_tips = [''Name specific debugging tools and their use cases'',
                 ''Discuss how you prevent similar issues in the future'',
                 ''Mention the importance of documenting solutions for team knowledge''] \<rparr>"

definition template_leadership :: "string \<Rightarrow> template" where
  "template_leadership answer' =
     \<lparr> t_score = calculateScore answer' [''leadership'', ''communication'', ''motivation'', ''change''],
       t_strengths = [''Strong leadership qualities demonstrated'',
                      ''Effective communication strategies mentioned'',
                      ''Good understanding of change management''],
       t_weaknesses = [''Could provide more specific examples of team motivation'',
                       ''Missing discussion of individual team member needs'',
                       ''Limited mention of measuring success''],
       t_tips = [''Describe specific techniques for motivating different personality types'',
                 ''Explain how you adapt your leadership style to individual needs'',
                 ''Include metrics or indicators you use to measure team success''] \<rparr>"

text \<open>
  \<open>analysisTemplates[category] || analysisTemplates.introduction\<close>, for the categories
  that are plain keys (none of the bank's categories names a property of \<open>Object.prototype\<close>).
\<close>

definition analysisTemplates :: "string \<Rightarrow> string \<Rightarrow> template" where
  "analysisTemplates answer' category =
     (if category = ''introduction'' then template_introduction answer'
      else if category = ''experience'' then template_experience answer'
      else if category = ''technical'' then template_technical answer'
      else if category = ''leadership'' then template_leadership answer'
      else template_introduction answer')"

definition generateDetailedFeedback :: "string \<Rightarrow> string \<Rightarrow> string" where
  "generateDetailedFeedback answer' category =
     (if category = ''introduction'' then
        ''Your response shows good self-awareness and enthusiasm. The structure is logical and flows well. To strengthen your answer, consider adding more specific examples of your achievements with quantifiable results.''
      else if category = ''experience'' then
        ''Excellent use of a specific example to demonstrate your experience. You clearly articulated the challenge and your approach. To make this even stronger, emphasize the concrete results and lessons learned.''
      else if category = ''technical'' then
        ''Your technical explanation demonstrates solid understanding. The methodical approach you described is valuable. Consider adding more details about specific tools and prevention strategies.''
      else if category = ''leadership'' then
        ''Strong demonstration of leadership capabilities. Your communication strategies are well-thought-out. To enhance this further, include specific examples of how you measure team success.''
      else
        ''Good overall response with clear communication. Your answer shows relevant experience and understanding. Focus on providing more specific examples and quantifiable outcomes.'')"

text \<open>\<open>question?.category || 'general'\<close>: a missing question or an empty category gives \<open>general\<close>.\<close>

definition feedbackCategory :: "InterviewQuestion option \<Rightarrow> string" where
  "feedbackCategory q =
     (case q of
        None \<Rightarrow> ''general''
      | Some q' \<Rightarrow> if q_category q' = [] then ''general'' else q_category q')"

text \<open>\<open>InterviewService.generateFeedback\<close>; \<open>r\<close> is the value of \<open>Math.random()\<close>.\<close>

definition scoreVariation :: "rat \<Rightarrow> rat" where
  "scoreVariation r = (r - 1 / 2) * (3 / 2)"

definition finalScore :: "template \<Rightarrow> rat \<Rightarrow> rat" where
  "finalScore t r = max 1 (min 10 (t_score t + scoreVariation r))"

definition generateFeedback :: "InterviewService \<Rightarrow> rat \<Rightarrow> string \<Rightarrow> string \<Rightarrow> AnalysisResult" where
  "generateFeedback svc r questionId' answer' =
     (let q = List.find (\<lambda>q. q_id q = questionId') (svc_questionBank svc);
          category = feedbackCategory q;
          t = analysisTemplates answer' category
      in \<lparr> score = js_round (finalScore t r * 10) / 10,
           strengths = t_strengths t,
           weaknesses = t_weaknesses t,
           tips = t_tips t,
           detailedFeedback = generateDetailedFeedback answer' category,
           categoryScore = js_round (finalScore t r * 10) / 10,
           improvementAreas =
             map (\<lambda>w. case js_split CHR '' '' w of [] \<Rightarrow> [] | x # _ \<Rightarrow> x) (t_weaknesses t) \<rparr>)"

text \<open>
  \<open>InterviewService.calculateAverageScore\<close>; \<open>score || 0\<close> is the score itself. The
  sum, the mean and the two scalings by ten are double operations; \<open>Math.round\<close> is exact.
\<close>

definition feedbackMessages :: "InterviewService \<Rightarrow> InterviewMessage list" where
  "feedbackMessages svc =
     filter (\<lambda>m. im_type m = TFeedback \<and> im_feedback m \<noteq> None) (messageHistory svc)"

definition feedbackScore :: "InterviewMessage \<Rightarrow> rat" where
  "feedbackScore m = (case im_feedback m of None \<Rightarrow> 0 | Some f \<Rightarrow> score f)"

definition calculateAverageScore :: "InterviewService \<Rightarrow> rat" where
  "calculateAverageScore svc =
     (if length (feedbackMessages svc) = 0 then 0
      else
        (let totalScore = foldl (\<lambda>sum msg. fadd sum (feedbackScore msg)) 0 (feedbackMessages svc)
         in fdiv (js_round (fmul (fdiv totalScore (of_nat (length (feedbackMessages svc)))) 10)) 10))"

record serviceSummary =
  ss_sessionId :: "string option"
  ss_totalQuestions :: nat
  ss_totalAnswers :: nat
  ss_averageScore :: rat
  ss_completedAt :: nat

text \<open>The events the service emits to its listeners.\<close>

datatype serviceEvent =
    QuestionAsked InterviewMessage InterviewQuestion
  | AnswerSubmitted InterviewMessage
  | AnalysisStarted
  | FeedbackReceived InterviewMessage
  | InterviewCompleted serviceSummary

definition endInterview :: "nat \<Rightarrow> InterviewService \<Rightarrow> InterviewService \<times> serviceEvent list" where
  "endInterview t svc =
     (svc,
      [InterviewCompleted
         \<lparr> ss_sessionId = svc_sessionId svc,
           ss_totalQuestions = length (filter (\<lambda>m. im_type m = TQuestion) (messageHistory svc)),
           ss_totalAnswers = length (filter (\<lambda>m. im_type m = TAnswer) (messageHistory svc)),
           ss_averageScore = calculateAverageScore svc,
           ss_completedAt = t \<rparr>])"

text \<open>\<open>InterviewService.askNextQuestion\<close>.\<close>

definition askNextQuestion :: "nat \<Rightarrow> InterviewService \<Rightarrow> InterviewService \<times> serviceEvent list" where
  "askNextQuestion t svc =
     (if svc_currentQuestionIndex svc \<ge> length (svc_questionBank svc) then endInterview t svc
      else
        (let q = svc_questionBank svc ! svc_currentQuestionIndex svc;
             questionMessage' =
               \<lparr> im_id = q_id q, im_type = TQuestion, im_content = q_question q,
                 im_timestamp = t, im_feedback = None \<rparr>
         in (svc \<lparr> svc_currentQuestionIndex := svc_currentQuestionIndex svc + 1,
                   messageHistory := messageHistory svc @ [questionMessage'] \<rparr>,
             [QuestionAsked questionMessage' q])))"

text \<open>
  \<open>InterviewService.submitAnswer\<close> up to the point where it schedules the next question:
  \<open>None\<close> is the thrown \<open>No active session\<close>.
\<close>

definition submitAnswer ::
  "nat \<Rightarrow> rat \<Rightarrow> string \<Rightarrow> string \<Rightarrow> InterviewService \<Rightarrow> (InterviewService \<times> serviceEvent list) option" where
  "submitAnswer t r questionId' answer' svc =
     (case svc_sessionId svc of
        None \<Rightarrow> None
      | Some _ \<Rightarrow>
          (let userMessage =
                 \<lparr> im_id = ''answer-'' @ string_of_nat t, im_type = TAnswer, im_content = answer',
                   im_timestamp = t, im_feedback = None \<rparr>;
               feedbackMessage =
                 \<lparr> im_id = ''feedback-'' @ string_of_nat t, im_type = TFeedback,
                   im_content = ''Analysis complete'', im_timestamp = t,
                   im_feedback = Some (generateFeedback svc r questionId' answer') \<rparr>
           in Some (svc \<lparr> messageHistory := messageHistory svc @ [userMessage, feedbackMessage] \<rparr>,
                    [AnswerSubmitted userMessage, AnalysisStarted, FeedbackReceived feedbackMessage])))"

text \<open>
  \<open>InterviewService.startSession\<close>: a fresh identifier
  \<open>session-<Date.now()>-<random characters>\<close>, an empty history, index \<open>0\<close>.
\<close>

definition startSession :: "nat \<Rightarrow> string \<Rightarrow> InterviewService \<Rightarrow> InterviewService" where
  "startSession t suffix svc =
     svc \<lparr> svc_sessionId := Some (''session-'' @ string_of_nat t @ ''-'' @ suffix),
           messageHistory := [],
           svc_currentQuestionIndex := 0 \<rparr>"

subsection \<open>The analyzer agent: session statistics\<close>

record sessionStats =
  averageScore :: rat
  totalQuestions :: nat
  strongestArea :: string
  weakestArea :: string
  overallTrend :: string

text \<open>
  \<open>countOccurrences\<close>: an object from item to count, kept as an association list in the
  order in which the keys were first written (the order of \<open>Object.keys\<close> for keys that
  are not array indices).
\<close>

fun increment :: "(string \<times> nat) list \<Rightarrow> string \<Rightarrow> (string \<times> nat) list" where
  "increment [] item = [(item, 1)]"
| "increment ((k, n) # acc) item =
     (if k = item then (k, n + 1) # acc else (k, n) # increment acc item)"

definition countOccurrences :: "string list \<Rightarrow> (string \<times> nat) list" where
  "countOccurrences arr = foldl increment [] arr"

text \<open>\<open>counts[a] > counts[b]\<close>: false when either count is \<open>undefined\<close>.\<close>

definition js_gt :: "nat option \<Rightarrow> nat option \<Rightarrow> bool" where
  "js_gt x y = (case (x, y) of (Some m, Some n) \<Rightarrow> m > n | _ \<Rightarrow> False)"

definition mostCommon :: "(string \<times> nat) list \<Rightarrow> string \<Rightarrow> string" where
  "mostCommon counts initial =
     foldl (\<lambda>a b. if js_gt (map_of counts a) (map_of counts b) then a else b)
       initial (map fst counts)"

text \<open>
  The mean of \<open>getSessionStats\<close>, \<open>xs.reduce((sum, score) => sum + score, 0) / xs.length\<close>,
  and its trend, all in double operations.
\<close>

definition average :: "rat list \<Rightarrow> rat" where
  "average xs = fdiv (foldl (\<lambda>sum sc. fadd sum sc) 0 xs) (of_nat (length xs))"

definition trend :: "rat list \<Rightarrow> string" where
  "trend scores =
     (if length scores \<ge> 3 then
        (let firstHalf = take (length scores div 2) scores;
             secondHalf = drop (length scores div 2) scores;
             firstAvg = average firstHalf;
             secondAvg = average secondHalf
         in if secondAvg > fadd firstAvg (1 / 2) then ''improving''
            else if secondAvg < fsub firstAvg (1 / 2) then ''declining''
            else ''stable'')
      else ''stable'')"

text \<open>\<open>AnalyzerAgent.getSessionStats\<close> over the agent's \<open>analysisHistory\<close>.\<close>

definition sessionAnalyses :: "(string \<rightharpoonup> AnalysisResult list) \<Rightarrow> string \<Rightarrow> AnalysisResult list" where
  "sessionAnalyses analysisHistory sessionId =
     (case analysisHistory sessionId of None \<Rightarrow> [] | Some a \<Rightarrow> a)"

definition getSessionStats :: "(string \<rightharpoonup> AnalysisResult list) \<Rightarrow> string \<Rightarrow> sessionStats" where
  "getSessionStats analysisHistory sessionId =
     (let analyses = sessionAnalyses analysisHistory sessionId
      in if length analyses = 0 then
           \<lparr> averageScore = 0, totalQuestions = 0, strongestArea = ''N/A'',
             weakestArea = ''N/A'', overallTrend = ''N/A'' \<rparr>
         else
           (let scores = map score analyses;
                strengthCounts = countOccurrences (concat (map strengths analyses));
                weaknessCounts = countOccurrences (concat (map weaknesses analyses))
            in \<lparr> averageScore = fdiv (js_round (fmul (average scores) 10)) 10,
                 totalQuestions = length analyses,
                 strongestArea = mostCommon strengthCounts ''Communication'',
                 weakestArea = mostCommon weaknessCounts ''Specificity'',
                 overallTrend = trend scores \<rparr>))"

text \<open>
  \<open>AnalyzerAgent.handleAnalyzeAnswer\<close>, given the result of \<open>analyzeWithMistral\<close>: the
  analysis is appended to the session's history and reported with the new statistics.
\<close>

definition recordAnalysis ::
  "string \<Rightarrow> AnalysisResult \<Rightarrow> (string \<rightharpoonup> AnalysisResult list) \<Rightarrow> (string \<rightharpoonup> AnalysisResult list)" where
  "recordAnalysis sessionId analysisResult analysisHistory =
     analysisHistory(sessionId \<mapsto> sessionAnalyses analysisHistory sessionId @ [analysisResult])"

definition handleAnalyzeAnswer ::
  "string \<Rightarrow> AnalysisResult \<Rightarrow> (string \<rightharpoonup> AnalysisResult list) \<Rightarrow>
     (string \<rightharpoonup> AnalysisResult list) \<times> AnalysisResult \<times> sessionStats" where
  "handleAnalyzeAnswer sessionId analysisResult analysisHistory =
     (let h = recordAnalysis sessionId analysisResult analysisHistory
      in (h, analysisResult, getSessionStats h sessionId))"

subsection \<open>The edge function \<open>analyze-answer\<close>\<close>

datatype json =
    JNull
  | JBool bool
  | JNum rat
  | JStr string
  | JArr "json list"
  | JObj "(string \<times> json) list"

record analyzeRequest =
  rq_question :: "string option"
  rq_answer :: "string option"
  rq_category :: "string option"
  rq_expectedElements :: "string list option"

text \<open>\<open>await req.json()\<close>: the exception's message, or the body.\<close>

datatype requestBody = BadBody string | Body analyzeRequest

text \<open>
  The outcome of the call to the Mistral API, as far as the handler looks at it:
  \<open>fetch\<close> throws; the response is not \<open>ok\<close> (with its status); reading
  \<open>data.choices[0].message.content\<close> out of the body throws; or that content, a string.
\<close>

datatype mistralReply =
    FetchThrows string
  | NotOk nat
  | BodyUnreadable string
  | Content string

text \<open>
  The body of a response: nothing (the preflight answer), or the JSON text of
  \<open>{success, analysis}\<close> or \<open>{success, error}\<close>.
\<close>

record apiResult =
  success :: bool
  analysis :: "json option"
  error :: "string option"

record response =
  status :: nat
  body :: "apiResult option"

text \<open>\<open>!s\<close> for an optional string: missing or empty.\<close>

definition falsy :: "string option \<Rightarrow> bool" where
  "falsy s = (case s of None \<Rightarrow> True | Some v \<Rightarrow> v = [])"

text \<open>
  The literal of the \<open>catch (parseError)\<close> branch, as \<open>JSON.stringify\<close> sends it: a
  \<open>category\<close> that is \<open>undefined\<close> is left out.
\<close>

definition fallbackAnalysis :: "string option \<Rightarrow> json" where
  "fallbackAnalysis category =
     JObj ([(''score'', JNum 7),
            (''strengths'', JArr [JStr ''Clear communication'', JStr ''Relevant experience mentioned'']),
            (''weaknesses'', JArr [JStr ''Could provide more specific examples'',
                                  JStr ''Answer could be more structured'']),
            (''improvements'', JArr [JStr ''Use the STAR method (Situation, Task, Action, Result)'',
                                    JStr ''Practice providing concrete examples''])]
           @ (case category of None \<Rightarrow> [] | Some c \<Rightarrow> [(''category'', JStr c)])
           @ [(''overall_feedback'', JStr ''Good foundation but could be more detailed and structured.'')])"

definition errorResponse :: "string \<Rightarrow> response" where
  "errorResponse message =
     \<lparr> status = 500, body = Some \<lparr> success = False, analysis = None, error = Some message \<rparr> \<rparr>"

text \<open>
  The handler passed to \<open>serve\<close>. \<open>parse\<close> is \<open>JSON.parse\<close> (\<open>None\<close> when it throws),
  \<open>apiKey\<close> is \<open>Deno.env.get('MISTRAL_API_KEY')\<close>. A \<open>Response\<close> built without a status
  has status \<open>200\<close>.
\<close>

definition serve ::
  "(string \<Rightarrow> json option) \<Rightarrow> string option \<Rightarrow> string \<Rightarrow> requestBody \<Rightarrow> mistralReply \<Rightarrow> response" where
  "serve parse apiKey method reqBody reply =
     (if method = ''OPTIONS'' then \<lparr> status = 200, body = None \<rparr>
      else
        (case reqBody of
           BadBody message \<Rightarrow> errorResponse message
         | Body rq \<Rightarrow>
             if falsy (rq_question rq) \<or> falsy (rq_answer rq)
             then errorResponse ''Question and answer are required''
             else if falsy apiKey then errorResponse ''Mistral API key not found''
             else
               (case reply of
                  FetchThrows message \<Rightarrow> errorResponse message
                | NotOk st \<Rightarrow> errorResponse (''Mistral API error: '' @ string_of_nat st)
                | BodyUnreadable message \<Rightarrow> errorResponse message
                | Content content' \<Rightarrow>
                    (let analysis' =
                           (case parse content' of
                              Some parsed \<Rightarrow> parsed
                            | None \<Rightarrow> fallbackAnalysis (rq_category rq))
                     in \<lparr> status = 200,
                          body = Some \<lparr> success = True, analysis = Some analysis', error = None \<rparr> \<rparr>))))"

text \<open>Reading a property of a JSON object.\<close>

definition field :: "json \<Rightarrow> string \<Rightarrow> json option" where
  "field j k = (case j of JObj kvs \<Rightarrow> map_of kvs k | _ \<Rightarrow> None)"

subsection \<open>The master agent: routing and retry\<close>

record masterSession =
  ms_id :: string
  ms_status :: string
  ms_startTime :: nat
  ms_participants :: "string list"
  ms_messageHistory :: "agentMessage list"

text \<open>
  \<open>routingSetUp\<close> tells whether \<open>setupMessageRouting\<close> has run: the constructor starts
  \<open>initializeCoralProtocol\<close>, which registers the listeners only after the awaited
  registration (100 ms). \<open>pendingRetries\<close> counts the \<open>setTimeout\<close> callbacks of
  \<open>handleRoutingError\<close> that have not fired yet (all have the same delay, so they fire in
  the order they were set). \<open>routed\<close> is the log of the calls of \<open>routeMessage\<close>, one
  entry per call, in order.
\<close>

record MasterAgent =
  sessions :: "string \<rightharpoonup> masterSession"
  messageQueue :: "agentMessage list"
  pendingRetries :: nat
  routed :: "agentMessage list"
  routingSetUp :: bool

definition new_MasterAgent :: MasterAgent where
  "new_MasterAgent =
     \<lparr> sessions = Map.empty, messageQueue = [], pendingRetries = 0, routed = [],
       routingSetUp = False \<rparr>"

definition setupMessageRouting :: "MasterAgent \<Rightarrow> MasterAgent" where
  "setupMessageRouting m = m \<lparr> routingSetUp := True \<rparr>"

text \<open>\<open>handleRoutingError\<close>: queue the message and set one timer.\<close>

definition handleRoutingError :: "agentMessage \<Rightarrow> MasterAgent \<Rightarrow> MasterAgent" where
  "handleRoutingError message m =
     m \<lparr> messageQueue := messageQueue m @ [message],
         pendingRetries := pendingRetries m + 1 \<rparr>"

text \<open>
  \<open>this.emit('routing-error', {message, error})\<close> in the \<open>catch\<close> of \<open>routeMessage\<close>:
  it runs \<open>handleRoutingError\<close> once the listener is registered and does nothing before.
\<close>

definition emitRoutingError :: "agentMessage \<Rightarrow> MasterAgent \<Rightarrow> MasterAgent" where
  "emitRoutingError message m = (if routingSetUp m then handleRoutingError message m else m)"

text \<open>
  \<open>routeMessage\<close> for a recipient other than \<open>all\<close>, as \<open>broadcastMessage\<close> calls it.
  \<open>delivers\<close> tells whether the HTTP request of \<open>forwardToInterviewerAgent\<close> or
  \<open>forwardToAnalyzerAgent\<close> succeeds for a message; \<open>forwardToFrontendAgent\<close> only emits
  an event, and an unknown recipient is logged. Every failure emits \<open>routing-error\<close>.
\<close>

definition storeInHistory :: "agentMessage \<Rightarrow> masterSession \<Rightarrow> MasterAgent \<Rightarrow> MasterAgent" where
  "storeInHistory message session m =
     m \<lparr> sessions := (sessions m)(msg_sessionId message \<mapsto>
           session \<lparr> ms_messageHistory := ms_messageHistory session @ [message] \<rparr>) \<rparr>"

definition forward :: "(agentMessage \<Rightarrow> bool) \<Rightarrow> agentMessage \<Rightarrow> MasterAgent \<Rightarrow> MasterAgent" where
  "forward delivers message m =
     (if msg_to message = ''interviewer-agent'' \<or> msg_to message = ''analyzer-agent''
      then (if delivers message then m else emitRoutingError message m)
      else m)"

definition routeOne :: "(agentMessage \<Rightarrow> bool) \<Rightarrow> agentMessage \<Rightarrow> MasterAgent \<Rightarrow> MasterAgent" where
  "routeOne delivers message m =
     (let m1 = m \<lparr> routed := routed m @ [message] \<rparr>
      in case sessions m1 (msg_sessionId message) of
           None \<Rightarrow> emitRoutingError message m1
         | Some session \<Rightarrow> forward delivers message (storeInHistory message session m1))"

text \<open>
  \<open>broadcastMessage\<close>: one copy per agent, each routed on its own (here one after the
  other, in the order of the array).
\<close>

definition broadcastMessage :: "(agentMessage \<Rightarrow> bool) \<Rightarrow> agentMessage \<Rightarrow> MasterAgent \<Rightarrow> MasterAgent" where
  "broadcastMessage delivers message m =
     foldl (\<lambda>m' agentId. routeOne delivers (message \<lparr> msg_to := agentId \<rparr>) m')
       m [''interviewer-agent'', ''analyzer-agent'', ''frontend-agent'']"

text \<open>\<open>MasterAgent.routeMessage\<close>.\<close>

definition routeMessage :: "(agentMessage \<Rightarrow> bool) \<Rightarrow> agentMessage \<Rightarrow> MasterAgent \<Rightarrow> MasterAgent" where
  "routeMessage delivers message m =
     (let m1 = m \<lparr> routed := routed m @ [message] \<rparr>
      in case sessions m1 (msg_sessionId message) of
           None \<Rightarrow> emitRoutingError message m1
         | Some session \<Rightarrow>
             if msg_to message = ''all''
             then broadcastMessage delivers message (storeInHistory message session m1)
             else forward delivers message (storeInHistory message session m1))"

text \<open>
  The callback of a retry timer: take the head of the queue, if there is one, and route
  it again. Nothing happens when no timer is pending.
\<close>

definition retryTimerFires :: "(agentMessage \<Rightarrow> bool) \<Rightarrow> MasterAgent \<Rightarrow> MasterAgent" where
  "retryTimerFires delivers m =
     (if pendingRetries m = 0 then m
      else
        (let m1 = m \<lparr> pendingRetries := pendingRetries m - 1 \<rparr>
         in case messageQueue m1 of
              [] \<Rightarrow> m1
            | retryMessage # rest \<Rightarrow> routeMessage delivers retryMessage (m1 \<lparr> messageQueue := rest \<rparr>)))"

text \<open>\<open>n\<close> firings of the retry timer, one after the other.\<close>

fun retries :: "(agentMessage \<Rightarrow> bool) \<Rightarrow> nat \<Rightarrow> MasterAgent \<Rightarrow> MasterAgent" where
  "retries delivers 0 m = m"
| "retries delivers (Suc n) m = retries delivers n (retryTimerFires delivers m)"

text \<open>How often a message has been handed to \<open>routeMessage\<close>.\<close>

definition attempts :: "agentMessage \<Rightarrow> MasterAgent \<Rightarrow> nat" where
  "attempts message m = length (filter (\<lambda>x. x = message) (routed m))"

subsection \<open>Observations and example inputs\<close>

text \<open>The difficulty a session has, if the session exists.\<close>

definition sessionDifficulty :: "InterviewerAgent \<Rightarrow> string \<Rightarrow> difficulty option" where
  "sessionDifficulty agent sessionId = map_option difficulty (sessionContext agent sessionId)"

text \<open>An agent with one session \<open>s1\<close> that has reached difficulty \<open>hard\<close>, and a clock reading.\<close>

definition hard_ctx :: sessionCtx where
  "hard_ctx = \<lparr> currentQuestionIndex = 0, questionsAsked = [], candidateProfile = None,
                startTime = 0, difficulty = Hard \<rparr>"

definition hard_agent :: InterviewerAgent where
  "hard_agent = (new_InterviewerAgent []) \<lparr> sessionContext := [''s1'' \<mapsto> hard_ctx] \<rparr>"

definition env0 :: env where
  "env0 = \<lparr> now = 1000, rnd = 0, tts = None \<rparr>"

text \<open>
  For the statements about score aggregation: the exact arithmetic mean of a list of
  numbers; the mean in double arithmetic, the numbers added from left to right and the
  sum divided by the count; and \<open>Math.round(x * 10) / 10\<close> in double arithmetic, the
  rounding to one decimal place with a half rounded up.
\<close>

definition mean :: "rat list \<Rightarrow> rat" where
  "mean xs = sum_list xs / of_nat (length xs)"

fun float_sum_from :: "rat \<Rightarrow> rat list \<Rightarrow> rat" where
  "float_sum_from acc [] = acc"
| "float_sum_from acc (x # xs) = float_sum_from (fadd acc x) xs"

definition float_mean :: "rat list \<Rightarrow> rat" where
  "float_mean xs = fdiv (float_sum_from 0 xs) (of_nat (length xs))"

definition float_round1 :: "rat \<Rightarrow> rat" where
  "float_round1 x = fdiv (of_int \<lfloor>fmul x 10 + 1 / 2\<rfloor>) 10"

text \<open>The scores of the feedback that a message history records, in order.\<close>

definition recordedScores :: "InterviewMessage list \<Rightarrow> rat list" where
  "recordedScores ms =
     concat (map (\<lambda>m. case im_feedback m of
                          None \<Rightarrow> []
                        | Some f \<Rightarrow> if im_type m = TFeedback then [score f] else []) ms)"

text \<open>An analysis with a given score, and histories of one and of three analyses.\<close>

definition analysis_scored :: "rat \<Rightarrow> AnalysisResult" where
  "analysis_scored s =
     \<lparr> score = s, strengths = [''Clear communication''],
       weaknesses = [''Could provide more specific examples''],
       tips = [''Practice the STAR method for structured answers''],
       detailedFeedback = ''Good overall response with room for improvement.'',
       categoryScore = s, improvementAreas = [''Answer structure''] \<rparr>"

definition history1 :: "string \<rightharpoonup> AnalysisResult list" where
  "history1 = [''s1'' \<mapsto> [analysis_scored 7]]"

definition history3 :: "string \<rightharpoonup> AnalysisResult list" where
  "history3 = [''s1'' \<mapsto> [analysis_scored 6, analysis_scored 7, analysis_scored 9]]"

text \<open>
  Two histories whose scores are doubles next to a decimal: \<open>1\<close> and \<open>1.7\<close>, and \<open>1.4\<close>,
  \<open>1.8\<close> and \<open>2\<close>.
\<close>

definition history_1_17 :: "string \<rightharpoonup> AnalysisResult list" where
  "history_1_17 = [''s1'' \<mapsto> [analysis_scored 1, analysis_scored (double (17 / 10))]]"

definition history_threshold :: "string \<rightharpoonup> AnalysisResult list" where
  "history_threshold =
     [''s1'' \<mapsto> [analysis_scored (double (7 / 5)), analysis_scored (double (9 / 5)), analysis_scored 2]]"


text \<open>A service whose history holds an answer and two feedback messages.\<close>

definition service2 :: InterviewService where
  "service2 =
     new_InterviewService
       \<lparr> svc_sessionId := Some ''session-1000-abc'',
         messageHistory :=
           [\<lparr> im_id = ''answer-1000'', im_type = TAnswer, im_content = ''my background'',
              im_timestamp = 1000, im_feedback = None \<rparr>,
            \<lparr> im_id = ''feedback-1000'', im_type = TFeedback, im_content = ''Analysis complete'',
              im_timestamp = 1000, im_feedback = Some (analysis_scored (13 / 2)) \<rparr>,
            \<lparr> im_id = ''feedback-2000'', im_type = TFeedback, im_content = ''Analysis complete'',
              im_timestamp = 2000, im_feedback = Some (analysis_scored 7) \<rparr>] \<rparr>"

text \<open>
  A stand-in for \<open>JSON.parse\<close> that reads two documents and rejects every other text,
  and a request to the edge function.
\<close>

definition example_parse :: "string \<Rightarrow> json option" where
  "example_parse s =
     (if s = ''null'' then Some JNull
      else if s = ''true'' then Some (JBool True)
      else None)"

definition example_request :: analyzeRequest where
  "example_request =
     \<lparr> rq_question = Some ''Walk me through your approach to debugging a complex technical issue.'',
       rq_answer = Some ''I reproduce the issue first.'',
       rq_category = Some ''technical'',
       rq_expectedElements = Some [''systematic approach''] \<rparr>"

text \<open>
  A session of the agent in which every question of the bank has been answered, and a
  service that has asked all of its questions.
\<close>

definition answered :: "InterviewQuestion \<Rightarrow> askedEntry" where
  "answered q = \<lparr> questionId = q_id q, question = Some (q_question q),
                  answer = ''An answer.'', timestamp = 1000 \<rparr>"

definition done_ctx :: sessionCtx where
  "done_ctx = \<lparr> currentQuestionIndex = 0, questionsAsked = map answered initializeQuestionBank,
                candidateProfile = None, startTime = 0, difficulty = Medium \<rparr>"

definition done_agent :: InterviewerAgent where
  "done_agent = (new_InterviewerAgent []) \<lparr> sessionContext := [''s1'' \<mapsto> done_ctx] \<rparr>"

definition done_service :: InterviewService where
  "done_service = new_InterviewService \<lparr> svc_currentQuestionIndex := 8 \<rparr>"

text \<open>A session in which only the opening question has been answered, now at medium.\<close>

definition one_asked_ctx :: sessionCtx where
  "one_asked_ctx = \<lparr> currentQuestionIndex = 0, questionsAsked = [answered intro_1],
                     candidateProfile = None, startTime = 0, difficulty = Medium \<rparr>"

text \<open>
  A custom question in the category \<open>technical\<close> (\<open>addCustomQuestion\<close> gives it its
  id), and an agent that got it through \<open>addCustomQuestion\<close>, started the session \<open>s1\<close> (the draw \<open>1/3\<close> picks
  \<open>technical-1\<close> as the first question) and handled the answer to that question.
\<close>

definition custom_technical :: InterviewQuestion where
  "custom_technical =
     \<lparr> q_id = [], q_category = ''technical'', q_difficulty = Medium,
       q_question = ''How do you test a change before you ship it?'',
       q_context = ''Testing practice'',
       q_expectedElements = [''test strategy''] \<rparr>"

definition env_first :: env where
  "env_first = \<lparr> now = 1000, rnd = 1 / 3, tts = None \<rparr>"

definition env_next :: env where
  "env_next = \<lparr> now = 3000, rnd = 9 / 10, tts = None \<rparr>"

definition custom_agent :: InterviewerAgent where
  "custom_agent =
     fst (handleCandidateAnswer env0 ''s1'' ''I reproduce the issue first.'' ''technical-1''
       (fst (handleStartSession env_first ''s1'' None
          (addCustomQuestion env0 ''k3x9q2m1z'' custom_technical (new_InterviewerAgent [])))))"

text \<open>
  For stating what is observed: the category, in the bank, of the question a session
  answered last; the categories of the questions a list of emitted events asks; and the
  categories of the questions available to a session, in bank order.
\<close>

definition lastAskedCategory :: "InterviewerAgent \<Rightarrow> string \<Rightarrow> string option" where
  "lastAskedCategory agent sessionId =
     (case sessionContext agent sessionId of
        None \<Rightarrow> None
      | Some ctx \<Rightarrow>
          (case questionsAsked ctx of
             [] \<Rightarrow> None
           | _ \<Rightarrow> map_option q_category
                    (List.find (\<lambda>q. q_id q = questionId (last (questionsAsked ctx))) (questionBank agent))))"

definition sentCategories :: "emitted list \<Rightarrow> string list" where
  "sentCategories es =
     concat (map (\<lambda>ev. case ev of
                      SendMessage m \<Rightarrow>
                        (case msg_content m of QuestionContent _ _ c _ _ \<Rightarrow> [c] | _ \<Rightarrow> [])
                    | _ \<Rightarrow> []) es)"

definition availableCategories :: "InterviewerAgent \<Rightarrow> string \<Rightarrow> string list" where
  "availableCategories agent sessionId =
     (case sessionContext agent sessionId of
        None \<Rightarrow> []
      | Some ctx \<Rightarrow> map q_category (availableQuestions (questionBank agent) ctx))"

text \<open>
  An answer on its way to the analyzer whose session the master agent does not know, and
  the condition under which routing a message fails: its session is unknown, or it goes
  to the interviewer or the analyzer and the HTTP request fails.
\<close>

definition lost_message :: agentMessage where
  "lost_message =
     \<lparr> msg_id = ''a-1000'', msg_from = ''interviewer-agent'', msg_to = ''analyzer-agent'',
       msg_type = ''answer'',
       msg_content = AnswerContent ''intro-1'' None ''An answer.'' None None 0 Easy,
       msg_sessionId = ''session-unknown'', msg_timestamp = 1000 \<rparr>"

definition undeliverable :: "(agentMessage \<Rightarrow> bool) \<Rightarrow> agentMessage \<Rightarrow> MasterAgent \<Rightarrow> bool" where
  "undeliverable delivers message m \<longleftrightarrow>
     sessions m (msg_sessionId message) = None \<or>
     ((msg_to message = ''interviewer-agent'' \<or> msg_to message = ''analyzer-agent'') \<and>
      \<not> delivers message)"

text \<open>
  A master agent whose listeners are registered, a second lost answer, the agent after
  both answers failed once, and the condition that every queued message fails and has
  its timer pending.
\<close>

definition ready_agent :: MasterAgent where
  "ready_agent = setupMessageRouting new_MasterAgent"

definition lost_message2 :: agentMessage where
  "lost_message2 =
     \<lparr> msg_id = ''a-2000'', msg_from = ''interviewer-agent'', msg_to = ''analyzer-agent'',
       msg_type = ''answer'',
       msg_content = AnswerContent ''technical-1'' None ''Another answer.'' None None 1 Medium,
       msg_sessionId = ''session-unknown'', msg_timestamp = 2000 \<rparr>"

definition two_lost :: MasterAgent where
  "two_lost =
     routeMessage (\<lambda>_. True) lost_message2 (routeMessage (\<lambda>_. True) lost_message ready_agent)"

definition all_fail :: "(agentMessage \<Rightarrow> bool) \<Rightarrow> MasterAgent \<Rightarrow> bool" where
  "all_fail delivers m \<longleftrightarrow>
     routingSetUp m \<and> pendingRetries m = length (messageQueue m) \<and>
     list_all (\<lambda>y. undeliverable delivers y m) (messageQueue m)"

section \<open>Properties\<close>

subsection \<open>Difficulty adaptation\<close>

lemma sessionContext_handleNextQuestion:
  "sessionContext agent sid = Some ctx \<Longrightarrow>
   sessionContext (fst (handleNextQuestion e sid pf agent)) =
     (sessionContext agent)(sid \<mapsto> adjustDifficulty pf ctx)"
  by (simp add: handleNextQuestion_def Let_def split: option.splits)

text \<open>
  Claim C2, as the code has it. A next-question request for an existing session whose
  previous feedback carries a score \<open>s\<close> other than \<open>0\<close> sets the session's difficulty to
  hard if \<open>s \<ge> 8\<close>, to medium if \<open>6 \<le> s < 8\<close> and to easy if \<open>s < 6\<close>; a request
  without a score leaves the difficulty as it was.
\<close>

theorem difficulty_adaptation:
  "sessionContext agent sid = Some ctx \<Longrightarrow>
     (\<forall>s. optional_score pf = Some s \<and> s \<noteq> 0 \<longrightarrow>
        sessionDifficulty (fst (handleNextQuestion e sid pf agent)) sid =
          Some (if s \<ge> 8 then Hard else if s \<ge> 6 then Medium else Easy)) \<and>
     (optional_score pf = None \<longrightarrow>
        sessionDifficulty (fst (handleNextQuestion e sid pf agent)) sid = Some (difficulty ctx))"
  by (simp add: sessionDifficulty_def sessionContext_handleNextQuestion adjustDifficulty_def)

theorem difficulty_adaptation_witness:
  "sessionContext hard_agent ''s1'' = Some hard_ctx \<and>
   sessionDifficulty (fst (handleNextQuestion env0 ''s1'' (Some \<lparr> fb_score = Some 7 \<rparr>) hard_agent)) ''s1''
     = Some Medium \<and>
   sessionDifficulty (fst (handleNextQuestion env0 ''s1'' None hard_agent)) ''s1'' = Some Hard"
proof -
  have h: "sessionContext hard_agent ''s1'' = Some hard_ctx"
    by (simp add: hard_agent_def)
  have a: "optional_score (Some \<lparr> fb_score = Some 7 \<rparr>) = Some 7"
    by (simp add: optional_score_def)
  have b: "optional_score None = None"
    by (simp add: optional_score_def)
  from difficulty_adaptation[OF h, of "Some \<lparr> fb_score = Some 7 \<rparr>" env0] a
  have 1: "sessionDifficulty (fst (handleNextQuestion env0 ''s1'' (Some \<lparr> fb_score = Some 7 \<rparr>) hard_agent)) ''s1''
             = Some Medium"
    by simp
  from difficulty_adaptation[OF h, of None env0] b
  have 2: "sessionDifficulty (fst (handleNextQuestion env0 ''s1'' None hard_agent)) ''s1''
             = Some (difficulty hard_ctx)"
    by simp
  show ?thesis using h 1 2 by (simp add: hard_ctx_def)
qed

text \<open>
  The claim as written fails for the score \<open>0\<close>: it is below \<open>6\<close>, yet the guard treats
  it as no score and the session stays at hard.
\<close>

theorem difficulty_adaptation_counterexample:
  "sessionDifficulty (fst (handleNextQuestion env0 ''s1'' (Some \<lparr> fb_score = Some 0 \<rparr>) hard_agent)) ''s1''
     = Some Hard \<and>
   Some Hard \<noteq> Some (if (0::rat) \<ge> 8 then Hard else if (0::rat) \<ge> 6 then Medium else Easy)"
  by (simp add: sessionDifficulty_def sessionContext_handleNextQuestion[where ctx = hard_ctx]
        hard_agent_def adjustDifficulty_def optional_score_def hard_ctx_def)

subsection \<open>Rounding\<close>

lemma js_round_mono: "x \<le> y \<Longrightarrow> js_round x \<le> js_round y"
  unfolding js_round_def by (simp add: floor_mono)

lemma js_round_of_int: "js_round (of_int k) = of_int k"
  unfolding js_round_def by (simp add: floor_unique)

lemma js_round_near: "\<bar>js_round x - x\<bar> \<le> 1 / 2"
  unfolding js_round_def by linarith

lemma round1_near: "\<bar>js_round (x * 10) / 10 - x\<bar> \<le> 1 / 20"
  using js_round_near[of "x * 10"] by (simp add: field_simps abs_le_iff)

lemma round1_tenth: "\<exists>k::int. js_round (x * 10) / 10 = of_int k / 10"
  unfolding js_round_def by blast

lemma round1_bounds:
  assumes "1 \<le> y" and "y \<le> 10"
  shows "1 \<le> js_round (y * 10) / 10 \<and> js_round (y * 10) / 10 \<le> 10"
proof -
  have lo: "js_round 10 = 10" using js_round_of_int[of 10] by simp
  have hi: "js_round 100 = 100" using js_round_of_int[of 100] by simp
  have "js_round 10 \<le> js_round (y * 10)" using assms by (intro js_round_mono) simp
  moreover have "js_round (y * 10) \<le> js_round 100" using assms by (intro js_round_mono) simp
  ultimately show ?thesis using lo hi by simp
qed

subsection \<open>Rounding to double precision\<close>

lemma powi_nat: "0 \<le> k \<Longrightarrow> (2::rat) powi k = 2 ^ nat k"
  by (simp add: power_int_def)

lemma powi_pos: "0 < (2::rat) powi k"
  by simp

lemma powi_suc: "(2::rat) powi (k + 1) = 2 * 2 powi k"
  by (simp add: power_int_add)

lemma powi_le: "j \<le> k \<Longrightarrow> (2::rat) powi j \<le> 2 powi k"
  by (rule power_int_increasing) simp_all

lemma powi_less_cancel: "(2::rat) powi j < 2 powi k \<Longrightarrow> j < k"
  by (metis powi_le leD leI)

lemma bitlen_powi_bounds:
  assumes "0 < p"
  shows "(2::rat) powi (bitlen p - 1) \<le> of_int p \<and> of_int p < (2::rat) powi bitlen p"
proof -
  have a1: "1 \<le> bitlen p"
    using assms bitlen_eq_zero_iff[of p] bitlen_nonneg[of p] by linarith
  from bitlen_bounds[OF assms]
  have l: "(2::int) ^ nat (bitlen p - 1) \<le> p" and u: "p < 2 ^ nat (bitlen p)" by simp_all
  have "(of_int ((2::int) ^ nat (bitlen p - 1)) :: rat) \<le> of_int p"
    using l by (simp only: of_int_le_iff)
  then have l': "(2::rat) powi (bitlen p - 1) \<le> of_int p"
    using a1 by (simp add: powi_nat)
  have "(of_int p :: rat) < of_int ((2::int) ^ nat (bitlen p))"
    using u by (simp only: of_int_less_iff)
  then have u': "of_int p < (2::rat) powi bitlen p"
    using a1 by (simp add: powi_nat)
  show ?thesis using l' u' by simp
qed

lemma binary_exponent_bounds:
  assumes "0 < x"
  shows "2 powi binary_exponent x \<le> x \<and> x < 2 powi (binary_exponent x + 1)"
proof -
  obtain p q where pq: "quotient_of x = (p, q)" by (cases "quotient_of x")
  then have q: "0 < q" by (rule quotient_of_denom_pos)
  from pq have x: "x = of_int p / of_int q" by (rule quotient_of_div)
  with assms q have p: "0 < p" by (simp add: zero_less_divide_iff)
  define a where "a = bitlen p"
  define b where "b = bitlen q"
  define e0 where "e0 = a - b"
  from bitlen_powi_bounds[OF p] have pl: "(2::rat) powi (a - 1) \<le> of_int p" and pu: "of_int p < (2::rat) powi a"
    unfolding a_def by simp_all
  from bitlen_powi_bounds[OF q] have ql: "(2::rat) powi (b - 1) \<le> of_int q" and qu: "of_int q < (2::rat) powi b"
    unfolding b_def by simp_all
  have qpos: "(0::rat) < of_int q" using q by simp
  have ppos: "(0::rat) < of_int p" using p by simp
  have up: "x < 2 powi (e0 + 1)"
  proof -
    have "of_int p < (2::rat) powi a" by (rule pu)
    also have "\<dots> = 2 powi (e0 + 1) * 2 powi (b - 1)"
      unfolding e0_def by (simp add: power_int_add [symmetric])
    also have "\<dots> \<le> 2 powi (e0 + 1) * of_int q"
      using ql by (intro mult_left_mono) simp_all
    finally have "of_int p < 2 powi (e0 + 1) * (of_int q :: rat)" .
    then show ?thesis unfolding x using qpos by (simp add: divide_less_eq)
  qed
  have low: "2 powi (e0 - 1) < x"
  proof -
    have "2 powi (e0 - 1) * (of_int q :: rat) < 2 powi (e0 - 1) * 2 powi b"
      using qu by (intro mult_strict_left_mono) simp_all
    also have "\<dots> = 2 powi (a - 1)"
      unfolding e0_def by (simp add: power_int_add [symmetric])
    also have "\<dots> \<le> of_int p" by (rule pl)
    finally have "2 powi (e0 - 1) * (of_int q :: rat) < of_int p" .
    then show ?thesis unfolding x using qpos by (simp add: less_divide_eq)
  qed
  have be: "binary_exponent x = (if 2 powi e0 \<le> x then e0 else e0 - 1)"
    by (simp add: binary_exponent_def pq e0_def a_def b_def)
  show ?thesis
  proof (cases "2 powi e0 \<le> x")
    case True
    then show ?thesis using up be by simp
  next
    case False
    then have "x < 2 powi e0" by simp
    then show ?thesis using low be False by simp
  qed
qed


lemma binary_exponent_mono:
  assumes "0 < x" "x \<le> y"
  shows "binary_exponent x \<le> binary_exponent y"
proof -
  have y: "0 < y" using assms by simp
  have "2 powi binary_exponent x \<le> x" using binary_exponent_bounds[OF assms(1)] by simp
  also have "x \<le> y" by fact
  also have "y < 2 powi (binary_exponent y + 1)" using binary_exponent_bounds[OF y] by simp
  finally have "binary_exponent x < binary_exponent y + 1" by (rule powi_less_cancel)
  then show ?thesis by simp
qed

lemma round_half_even_mono: "a \<le> b \<Longrightarrow> round_half_even a \<le> round_half_even b"
proof -
  assume ab: "a \<le> b"
  have fl: "\<lfloor>a\<rfloor> \<le> \<lfloor>b\<rfloor>" using ab by (rule floor_mono)
  show ?thesis
  proof (cases "\<lfloor>a\<rfloor> = \<lfloor>b\<rfloor>")
    case True
    then have "a - of_int \<lfloor>a\<rfloor> \<le> b - of_int \<lfloor>b\<rfloor>" using ab by simp
    then show ?thesis using True by (auto simp: round_half_even_def)
  next
    case False
    then have "\<lfloor>a\<rfloor> + 1 \<le> \<lfloor>b\<rfloor>" using fl by simp
    moreover have "round_half_even a \<le> \<lfloor>a\<rfloor> + 1" by (simp add: round_half_even_def)
    moreover have "\<lfloor>b\<rfloor> \<le> round_half_even b" by (simp add: round_half_even_def)
    ultimately show ?thesis by linarith
  qed
qed

lemma round_half_even_of_int: "round_half_even (of_int k) = k"
  by (simp add: round_half_even_def)

lemma double_pos:
  "0 < x \<Longrightarrow> double x = of_int (round_half_even (x / 2 powi (ulp_exponent x - 52))) * 2 powi (ulp_exponent x - 52)"
  by (simp add: double_def Let_def)

lemma powi_shift: "(2::rat) powi (k + int n) = of_int (2 ^ n) * 2 powi k"
  by (simp add: power_int_add mult.commute)

lemma double_upper:
  assumes "0 < x"
  shows "double x \<le> 2 powi (ulp_exponent x + 1)"
proof -
  let ?E = "ulp_exponent x"
  let ?u = "(2::rat) powi (?E - 52)"
  define c :: int where "c = 2 ^ 53"
  have e: "?E + 1 = (?E - 52) + int 53" by simp
  have s: "(2::rat) powi (?E + 1) = of_int c * ?u"
    unfolding c_def by (subst e) (rule powi_shift)
  have "x < 2 powi (binary_exponent x + 1)" using binary_exponent_bounds[OF assms] by simp
  also have "\<dots> \<le> 2 powi (?E + 1)" by (rule powi_le) (simp add: ulp_exponent_def)
  finally have "x < of_int c * ?u" unfolding s .
  then have "x / ?u \<le> of_int c" by (simp add: divide_le_eq)
  then have "round_half_even (x / ?u) \<le> round_half_even (of_int c)"
    by (rule round_half_even_mono)
  then have "round_half_even (x / ?u) \<le> c" by (simp only: round_half_even_of_int)
  then have "(of_int (round_half_even (x / ?u)) :: rat) \<le> of_int c" by (simp only: of_int_le_iff)
  then have "of_int (round_half_even (x / ?u)) * ?u \<le> of_int c * ?u"
    by (intro mult_right_mono) simp_all
  then show ?thesis unfolding double_pos[OF assms] s .
qed

lemma double_lower:
  assumes "0 < x" "- 1022 < ulp_exponent x"
  shows "2 powi ulp_exponent x \<le> double x"
proof -
  let ?E = "ulp_exponent x"
  let ?u = "(2::rat) powi (?E - 52)"
  define c :: int where "c = 2 ^ 52"
  have E: "?E = binary_exponent x" using assms(2) by (simp add: ulp_exponent_def)
  have e: "?E = (?E - 52) + int 52" by simp
  have s: "(2::rat) powi ?E = of_int c * ?u"
    unfolding c_def by (subst e) (rule powi_shift)
  have "2 powi ?E \<le> x" using binary_exponent_bounds[OF assms(1)] E by simp
  then have "of_int c * ?u \<le> x" unfolding s .
  then have "of_int c \<le> x / ?u" by (simp add: le_divide_eq)
  then have "round_half_even (of_int c) \<le> round_half_even (x / ?u)"
    by (rule round_half_even_mono)
  then have "c \<le> round_half_even (x / ?u)" by (simp only: round_half_even_of_int)
  then have "(of_int c :: rat) \<le> of_int (round_half_even (x / ?u))" by (simp only: of_int_le_iff)
  then have "of_int c * ?u \<le> of_int (round_half_even (x / ?u)) * ?u"
    by (intro mult_right_mono) simp_all
  then show ?thesis unfolding double_pos[OF assms(1)] s .
qed

lemma double_mono_pos:
  assumes "0 < x" "x \<le> y"
  shows "double x \<le> double y"
proof -
  have y: "0 < y" using assms by simp
  have E: "ulp_exponent x \<le> ulp_exponent y"
    using binary_exponent_mono[OF assms] by (simp add: ulp_exponent_def)
  show ?thesis
  proof (cases "ulp_exponent x = ulp_exponent y")
    case True
    have "x / 2 powi (ulp_exponent y - 52) \<le> y / 2 powi (ulp_exponent y - 52)"
      using assms(2) by (intro divide_right_mono) simp_all
    then have "round_half_even (x / 2 powi (ulp_exponent y - 52))
                 \<le> round_half_even (y / 2 powi (ulp_exponent y - 52))"
      by (rule round_half_even_mono)
    then have "(of_int (round_half_even (x / 2 powi (ulp_exponent y - 52))) :: rat)
                 \<le> of_int (round_half_even (y / 2 powi (ulp_exponent y - 52)))"
      by (simp only: of_int_le_iff)
    then have "of_int (round_half_even (x / 2 powi (ulp_exponent y - 52))) * (2::rat) powi (ulp_exponent y - 52)
                 \<le> of_int (round_half_even (y / 2 powi (ulp_exponent y - 52))) * 2 powi (ulp_exponent y - 52)"
      by (intro mult_right_mono) simp_all
    then show ?thesis unfolding double_pos[OF assms(1)] double_pos[OF y] True .
  next
    case False
    with E have lt: "ulp_exponent x + 1 \<le> ulp_exponent y" by simp
    have "- 1022 \<le> ulp_exponent x" by (simp add: ulp_exponent_def)
    with lt have n: "- 1022 < ulp_exponent y" by simp
    have "double x \<le> 2 powi (ulp_exponent x + 1)" by (rule double_upper[OF assms(1)])
    also have "\<dots> \<le> 2 powi ulp_exponent y" using lt by (rule powi_le)
    also have "\<dots> \<le> double y" by (rule double_lower[OF y n])
    finally show ?thesis .
  qed
qed

lemma round_half_even_nonneg: "0 \<le> a \<Longrightarrow> 0 \<le> round_half_even a"
  using round_half_even_mono[of 0 a] round_half_even_of_int[of 0] by simp

lemma double_nonneg: "0 \<le> x \<Longrightarrow> 0 \<le> double x"
proof (cases "x = 0")
  case True
  then show ?thesis by (simp add: double_def)
next
  case False
  assume "0 \<le> x"
  with False have p: "0 < x" by simp
  have "0 \<le> x / 2 powi (ulp_exponent x - 52)" using p by simp
  then have "0 \<le> round_half_even (x / 2 powi (ulp_exponent x - 52))"
    by (rule round_half_even_nonneg)
  then show ?thesis unfolding double_pos[OF p] by simp
qed

lemma double_minus: "double (- x) = - double x"
  by (simp add: double_def Let_def sgn_minus)

lemma double_mono: "x \<le> y \<Longrightarrow> double x \<le> double y"
proof -
  assume xy: "x \<le> y"
  consider "0 < x" | "x \<le> 0" "0 \<le> y" | "y < 0" by linarith
  then show ?thesis
  proof cases
    case 1
    then show ?thesis using xy by (rule double_mono_pos)
  next
    case 2
    have "double x = - double (- x)" by (simp add: double_minus)
    moreover have "0 \<le> double (- x)" using 2(1) by (intro double_nonneg) simp
    moreover have "0 \<le> double y" using 2(2) by (rule double_nonneg)
    ultimately show ?thesis by simp
  next
    case 3
    then have "0 < - y" "- y \<le> - x" using xy by simp_all
    then have "double (- y) \<le> double (- x)" by (rule double_mono_pos)
    then show ?thesis by (simp add: double_minus)
  qed
qed

lemma fsub_le_fadd: "fsub a (1 / 2) \<le> fadd a (1 / 2)"
  unfolding fsub_def fadd_def by (rule double_mono) simp

subsection \<open>Scores of the frontend service\<close>

lemma finalScore_bounds: "1 \<le> finalScore t r \<and> finalScore t r \<le> 10"
  unfolding finalScore_def by simp

lemma calculateScore_le: "calculateScore a ks \<le> 9"
  unfolding calculateScore_def Let_def by simp

text \<open>
  Claim C10. For every question id, answer and random draw, the analysis of
  \<open>generateFeedback\<close> has \<open>score\<close> equal to \<open>categoryScore\<close>, both between \<open>1\<close> and \<open>10\<close>
  and a whole number of tenths; and the keyword score that \<open>calculateScore\<close> returns is
  at most \<open>9\<close>, whatever the answer and the keywords.
\<close>

theorem feedback_score_range:
  "score (generateFeedback svc r qid a) = categoryScore (generateFeedback svc r qid a) \<and>
   1 \<le> score (generateFeedback svc r qid a) \<and> score (generateFeedback svc r qid a) \<le> 10 \<and>
   (\<exists>k::int. score (generateFeedback svc r qid a) = of_int k / 10) \<and>
   calculateScore a ks \<le> 9"
  using finalScore_bounds round1_bounds round1_tenth calculateScore_le
  by (simp add: generateFeedback_def Let_def)

theorem feedback_score_range_witness:
  "score (generateFeedback new_InterviewService (1 / 2) ''intro-1'' ''my background'') = 11 / 10 \<and>
   categoryScore (generateFeedback new_InterviewService (1 / 2) ''intro-1'' ''my background'') = 11 / 10 \<and>
   calculateScore ''my background'' [''background'', ''experience'', ''motivation''] \<le> 9"
proof -
  have v: "score (generateFeedback new_InterviewService (1 / 2) ''intro-1'' ''my background'') = 11 / 10"
    by code_simp
  from feedback_score_range[of new_InterviewService "1 / 2" "''intro-1''" "''my background''"
      "[''background'', ''experience'', ''motivation'']"]
  show ?thesis unfolding v by simp
qed

subsection \<open>Score aggregation and trend\<close>

lemma foldl_fadd: "foldl (\<lambda>sum x. fadd sum (f x)) a xs = float_sum_from a (map f xs)"
  by (induction xs arbitrary: a) simp_all

lemma average_float_mean: "average xs = float_mean xs"
  using foldl_fadd[of "\<lambda>x. x" 0 xs] by (simp add: average_def float_mean_def)

lemma js_round_float_round1: "fdiv (js_round (fmul x 10)) 10 = float_round1 x"
  by (simp add: js_round_def float_round1_def)

lemma feedback_recorded:
  "map feedbackScore (feedbackMessages svc) = recordedScores (messageHistory svc)"
proof -
  have "map feedbackScore (filter (\<lambda>m. im_type m = TFeedback \<and> im_feedback m \<noteq> None) ms)
          = recordedScores ms" for ms
    by (induction ms) (auto simp: recordedScores_def feedbackScore_def split: option.splits)
  then show ?thesis by (simp add: feedbackMessages_def)
qed

lemma averageScore_Some:
  "h sid = Some analyses \<Longrightarrow>
     averageScore (getSessionStats h sid) =
       (if analyses = [] then 0 else float_round1 (float_mean (map score analyses)))"
  by (simp add: getSessionStats_def sessionAnalyses_def Let_def average_float_mean
        js_round_float_round1)

lemma averageScore_None:
  "h sid = None \<Longrightarrow> averageScore (getSessionStats h sid) = 0"
  by (simp add: getSessionStats_def sessionAnalyses_def)

lemma calculateAverageScore_recorded:
  "calculateAverageScore svc =
     (if recordedScores (messageHistory svc) = [] then 0
      else float_round1 (float_mean (recordedScores (messageHistory svc))))"
proof -
  have l: "length (feedbackMessages svc) = length (recordedScores (messageHistory svc))"
    using feedback_recorded[of svc] by (metis length_map)
  have e: "feedbackMessages svc = [] \<longleftrightarrow> recordedScores (messageHistory svc) = []"
    using l by (metis length_0_conv)
  show ?thesis
    using foldl_fadd[of feedbackScore 0 "feedbackMessages svc"] e l
    by (simp add: calculateAverageScore_def Let_def float_mean_def feedback_recorded
          js_round_float_round1)
qed

text \<open>
  Claim C7, as the code has it. The average score that the analyzer's \<open>getSessionStats\<close>
  reports for a session, and the one that the service's \<open>calculateAverageScore\<close>
  computes from the feedback recorded in its history, is \<open>0\<close> when no feedback is
  recorded; otherwise it is the mean of the recorded scores as double arithmetic
  computes it (the scores added from left to right, the sum divided by the count),
  rounded to one decimal place by \<open>Math.round(x * 10) / 10\<close>.
\<close>

theorem average_score:
  "(h sid = None \<longrightarrow> averageScore (getSessionStats h sid) = 0) \<and>
   (h sid = Some analyses \<longrightarrow>
      averageScore (getSessionStats h sid) =
        (if analyses = [] then 0 else float_round1 (float_mean (map score analyses)))) \<and>
   calculateAverageScore svc =
     (if recordedScores (messageHistory svc) = [] then 0
      else float_round1 (float_mean (recordedScores (messageHistory svc))))"
  using averageScore_None[of h sid] averageScore_Some[of h sid analyses]
    calculateAverageScore_recorded[of svc]
  by blast


theorem average_score_witness:
  "averageScore (getSessionStats history3 ''s1'') = double (73 / 10) \<and>
   averageScore (getSessionStats Map.empty ''s1'') = 0 \<and>
   calculateAverageScore service2 = double (34 / 5) \<and>
   calculateAverageScore new_InterviewService = 0"
proof -
  have h3: "history3 ''s1'' = Some [analysis_scored 6, analysis_scored 7, analysis_scored 9]"
    by (simp add: history3_def)
  have v3: "float_round1 (float_mean (map score [analysis_scored 6, analysis_scored 7, analysis_scored 9]))
              = double (73 / 10)"
    by code_simp
  have r2: "recordedScores (messageHistory service2) = [13 / 2, 7]" by code_simp
  have v2: "float_round1 (float_mean [13 / 2, 7]) = double (34 / 5)" by code_simp
  have r0: "recordedScores (messageHistory new_InterviewService) = []" by code_simp
  from average_score[of history3 "''s1''" _ service2] h3 v3 r2 v2
  have a: "averageScore (getSessionStats history3 ''s1'') = double (73 / 10)"
    and c: "calculateAverageScore service2 = double (34 / 5)"
    by simp_all
  from average_score[of Map.empty "''s1''" _ new_InterviewService] r0
  have b: "averageScore (getSessionStats Map.empty ''s1'') = 0"
    and d: "calculateAverageScore new_InterviewService = 0"
    by simp_all
  show ?thesis using a b c d by simp
qed

text \<open>
  The claim as written takes the exact mean. For the recorded scores \<open>1\<close> and \<open>1.7\<close> the
  exact mean is nearer to \<open>1.3\<close> than to any other tenth, while the sum in doubles rounds
  up to a mean of \<open>1.35\<close> and the reported average is the double of \<open>1.4\<close>.
\<close>

theorem average_score_counterexample:
  "map score (sessionAnalyses history_1_17 ''s1'') = [1, double (17 / 10)] \<and>
   \<bar>mean [1, double (17 / 10)] - 13 / 10\<bar> < 1 / 20 \<and>
   averageScore (getSessionStats history_1_17 ''s1'') = double (7 / 5) \<and>
   double (7 / 5) \<noteq> 13 / 10 \<and> double (7 / 5) \<noteq> double (13 / 10)"
  by code_simp

lemma trend_cases:
  "3 \<le> length scores \<Longrightarrow>
   trend scores =
     (if float_mean (drop (length scores div 2) scores)
           > fadd (float_mean (take (length scores div 2) scores)) (1 / 2)
      then ''improving''
      else if float_mean (drop (length scores div 2) scores)
                < fsub (float_mean (take (length scores div 2) scores)) (1 / 2)
      then ''declining'' else ''stable'')"
  by (simp add: trend_def Let_def average_float_mean)

lemma trend_short: "length scores < 3 \<Longrightarrow> trend scores = ''stable''"
  by (simp add: trend_def)

lemma overallTrend_None:
  "h sid = None \<Longrightarrow> overallTrend (getSessionStats h sid) = ''N/A''"
  by (simp add: getSessionStats_def sessionAnalyses_def)

lemma overallTrend_Some:
  "h sid = Some analyses \<Longrightarrow>
     overallTrend (getSessionStats h sid) =
       (if analyses = [] then ''N/A'' else trend (map score analyses))"
  by (simp add: getSessionStats_def sessionAnalyses_def Let_def)

text \<open>
  Claim C6, as the code has it. A session without analyses reports the trend \<open>N/A\<close>;
  with one or two analyses the trend is \<open>stable\<close>; with at least three, the scores are
  split at \<open>\<lfloor>n/2\<rfloor>\<close>, the two means and the sum and difference with \<open>0.5\<close> are
  computed in double arithmetic, and the trend is \<open>improving\<close> exactly when the mean of
  the second half is greater than the mean of the first half plus \<open>0.5\<close>, \<open>declining\<close>
  exactly when it is less than the mean of the first half minus \<open>0.5\<close>, and \<open>stable\<close>
  otherwise.
\<close>

theorem trend_detection:
  "(h sid = None \<longrightarrow> overallTrend (getSessionStats h sid) = ''N/A'') \<and>
   (h sid = Some analyses \<longrightarrow>
      (length analyses = 0 \<longrightarrow> overallTrend (getSessionStats h sid) = ''N/A'') \<and>
      (0 < length analyses \<and> length analyses < 3 \<longrightarrow>
         overallTrend (getSessionStats h sid) = ''stable'') \<and>
      (3 \<le> length analyses \<longrightarrow>
         (let scores = map score analyses;
              firstHalf = take (length scores div 2) scores;
              secondHalf = drop (length scores div 2) scores
          in (overallTrend (getSessionStats h sid) = ''improving''
                \<longleftrightarrow> float_mean secondHalf > fadd (float_mean firstHalf) (1 / 2)) \<and>
             (overallTrend (getSessionStats h sid) = ''declining''
                \<longleftrightarrow> float_mean secondHalf < fsub (float_mean firstHalf) (1 / 2)) \<and>
             (overallTrend (getSessionStats h sid) = ''stable''
                \<longleftrightarrow> \<not> float_mean secondHalf > fadd (float_mean firstHalf) (1 / 2) \<and>
                    \<not> float_mean secondHalf < fsub (float_mean firstHalf) (1 / 2)))))"
proof (intro conjI impI)
  assume "h sid = None"
  then show "overallTrend (getSessionStats h sid) = ''N/A''"
    by (rule overallTrend_None)
next
  assume "h sid = Some analyses" and "length analyses = 0"
  then show "overallTrend (getSessionStats h sid) = ''N/A''"
    by (simp add: overallTrend_Some)
next
  assume "h sid = Some analyses" and "0 < length analyses \<and> length analyses < 3"
  then show "overallTrend (getSessionStats h sid) = ''stable''"
    by (auto simp: overallTrend_Some trend_short)
next
  assume s: "h sid = Some analyses" and n: "3 \<le> length analyses"
  then have ne: "analyses \<noteq> []" by auto
  have t: "overallTrend (getSessionStats h sid) = trend (map score analyses)"
    using overallTrend_Some[of h sid analyses] s ne by simp
  from n have l: "3 \<le> length (map score analyses)" by simp
  show "let scores = map score analyses;
            firstHalf = take (length scores div 2) scores;
            secondHalf = drop (length scores div 2) scores
        in (overallTrend (getSessionStats h sid) = ''improving''
              \<longleftrightarrow> float_mean secondHalf > fadd (float_mean firstHalf) (1 / 2)) \<and>
           (overallTrend (getSessionStats h sid) = ''declining''
              \<longleftrightarrow> float_mean secondHalf < fsub (float_mean firstHalf) (1 / 2)) \<and>
           (overallTrend (getSessionStats h sid) = ''stable''
              \<longleftrightarrow> \<not> float_mean secondHalf > fadd (float_mean firstHalf) (1 / 2) \<and>
                  \<not> float_mean secondHalf < fsub (float_mean firstHalf) (1 / 2))"
    unfolding Let_def t trend_cases[OF l]
    using fsub_le_fadd[of "float_mean (take (length (map score analyses) div 2) (map score analyses))"]
    by auto
qed

theorem trend_detection_witness:
  "overallTrend (getSessionStats history3 ''s1'') = ''improving'' \<and>
   overallTrend (getSessionStats history1 ''s1'') = ''stable'' \<and>
   overallTrend (getSessionStats Map.empty ''s1'') = ''N/A''"
proof -
  have h3: "history3 ''s1'' = Some [analysis_scored 6, analysis_scored 7, analysis_scored 9]"
    by (simp add: history3_def)
  have h1: "history1 ''s1'' = Some [analysis_scored 7]"
    by (simp add: history1_def)
  have m3: "float_mean (drop (length (map score [analysis_scored 6, analysis_scored 7, analysis_scored 9]) div 2)
                    (map score [analysis_scored 6, analysis_scored 7, analysis_scored 9]))
              > fadd (float_mean (take (length (map score [analysis_scored 6, analysis_scored 7, analysis_scored 9]) div 2)
                    (map score [analysis_scored 6, analysis_scored 7, analysis_scored 9]))) (1 / 2)"
    by code_simp
  from trend_detection[of history3 "''s1''" "[analysis_scored 6, analysis_scored 7, analysis_scored 9]"] h3 m3
  have a: "overallTrend (getSessionStats history3 ''s1'') = ''improving''"
    by (simp add: Let_def)
  from trend_detection[of history1 "''s1''" "[analysis_scored 7]"] h1
  have b: "overallTrend (getSessionStats history1 ''s1'') = ''stable''"
    by simp
  from trend_detection[of Map.empty "''s1''"]
  have c: "overallTrend (getSessionStats Map.empty ''s1'') = ''N/A''"
    by simp
  show ?thesis using a b c by simp
qed

text \<open>
  The claim as written says \<open>stable\<close> for every session with fewer than three analyses,
  and compares the exact means. A session with no analysis reports \<open>N/A\<close>; and for the
  scores \<open>1.4\<close>, \<open>1.8\<close> and \<open>2\<close> the exact mean of the second half exceeds that of the
  first half by more than \<open>1/2\<close>, yet the trend is not \<open>improving\<close>.
\<close>

theorem trend_detection_counterexample:
  "length (sessionAnalyses Map.empty ''s1'') < 3 \<and>
   overallTrend (getSessionStats Map.empty ''s1'') \<noteq> ''stable'' \<and>
   mean [double (9 / 5), 2] > mean [double (7 / 5)] + 1 / 2 \<and>
   map score (sessionAnalyses history_threshold ''s1'') = [double (7 / 5), double (9 / 5), 2] \<and>
   overallTrend (getSessionStats history_threshold ''s1'') \<noteq> ''improving''"
  by code_simp

subsection \<open>The edge function's fallback\<close>

text \<open>
  Claim C5. For a request other than the preflight, with a question, an answer and an
  API key, whose Mistral call succeeds with a content that \<open>JSON.parse\<close> rejects, the
  handler answers with status \<open>200\<close> and \<open>success: true\<close>, and the analysis is the
  hardcoded object: score \<open>7\<close>, two strengths, two weaknesses, two improvement tips, the
  request's category and the fixed overall feedback.
\<close>

theorem parse_fallback:
  "method \<noteq> ''OPTIONS'' \<Longrightarrow>
   \<not> falsy (rq_question rq) \<Longrightarrow> \<not> falsy (rq_answer rq) \<Longrightarrow> \<not> falsy apiKey \<Longrightarrow>
   parse c = None \<Longrightarrow>
   status (serve parse apiKey method (Body rq) (Content c)) = 200 \<and>
   body (serve parse apiKey method (Body rq) (Content c)) =
     Some \<lparr> success = True, analysis = Some (fallbackAnalysis (rq_category rq)), error = None \<rparr> \<and>
   field (fallbackAnalysis (rq_category rq)) ''score'' = Some (JNum 7) \<and>
   field (fallbackAnalysis (rq_category rq)) ''strengths'' =
     Some (JArr [JStr ''Clear communication'', JStr ''Relevant experience mentioned'']) \<and>
   field (fallbackAnalysis (rq_category rq)) ''weaknesses'' =
     Some (JArr [JStr ''Could provide more specific examples'',
                 JStr ''Answer could be more structured'']) \<and>
   field (fallbackAnalysis (rq_category rq)) ''improvements'' =
     Some (JArr [JStr ''Use the STAR method (Situation, Task, Action, Result)'',
                 JStr ''Practice providing concrete examples'']) \<and>
   field (fallbackAnalysis (rq_category rq)) ''category'' = map_option JStr (rq_category rq) \<and>
   field (fallbackAnalysis (rq_category rq)) ''overall_feedback'' =
     Some (JStr ''Good foundation but could be more detailed and structured.'')"
  by (cases "rq_category rq") (simp_all add: serve_def fallbackAnalysis_def field_def)

theorem parse_fallback_witness:
  "status (serve example_parse (Some ''key'') ''POST'' (Body example_request)
             (Content ''Sure, here is my analysis of the answer.'')) = 200 \<and>
   body (serve example_parse (Some ''key'') ''POST'' (Body example_request)
             (Content ''Sure, here is my analysis of the answer.'')) =
     Some \<lparr> success = True, analysis = Some (fallbackAnalysis (Some ''technical'')), error = None \<rparr> \<and>
   field (fallbackAnalysis (Some ''technical'')) ''category'' = Some (JStr ''technical'')"
proof -
  have m: "''POST'' \<noteq> ''OPTIONS''" by simp
  have q: "\<not> falsy (rq_question example_request)" by (simp add: falsy_def example_request_def)
  have a: "\<not> falsy (rq_answer example_request)" by (simp add: falsy_def example_request_def)
  have k: "\<not> falsy (Some ''key'')" by (simp add: falsy_def)
  have p: "example_parse ''Sure, here is my analysis of the answer.'' = None"
    by (simp add: example_parse_def)
  have c: "rq_category example_request = Some ''technical''" by (simp add: example_request_def)
  from parse_fallback[of "''POST''" example_request "Some ''key''" example_parse, OF m q a k p] show ?thesis unfolding c by simp
qed

subsection \<open>Question selection\<close>

lemma random_index_in_range:
  fixes r :: rat
  assumes "0 \<le> r" "r < 1" "0 < n"
  shows "0 \<le> \<lfloor>r * of_nat n\<rfloor> \<and> \<lfloor>r * of_nat n\<rfloor> < int n"
proof -
  have "0 \<le> r * of_nat n" using assms by simp
  then have a: "0 \<le> \<lfloor>r * of_nat n\<rfloor>" by simp
  have "r * of_nat n < 1 * of_nat n" using assms by (intro mult_strict_right_mono) simp_all
  then have "r * of_nat n < of_int (int n)" by simp
  then have b: "\<lfloor>r * of_nat n\<rfloor> < int n" by (simp only: floor_less_iff)
  show ?thesis using a b by simp
qed

lemma js_index_Some:
  "0 \<le> i \<Longrightarrow> i < int (length xs) \<Longrightarrow> js_index xs i = Some (xs ! nat i)"
  by (simp add: js_index_def)

lemma available_subset_remaining:
  "set (availableQuestions bank ctx) \<subseteq> set (remainingQuestions bank ctx)"
  by (auto simp: availableQuestions_def remainingQuestions_def)

lemma selected_nonempty:
  "availableQuestions bank ctx \<noteq> [] \<Longrightarrow> selectedQuestions bank ctx \<noteq> []"
  by (simp add: selectedQuestions_def)

lemma selected_subset_available:
  "set (selectedQuestions bank ctx) \<subseteq> set (availableQuestions bank ctx)"
  by (auto simp: selectedQuestions_def differentCategoryQuestions_def)

lemma remaining_empty_iff:
  "remainingQuestions bank ctx = [] \<longleftrightarrow>
     (\<forall>q \<in> set bank. q_id q \<in> questionId ` set (questionsAsked ctx))"
  by (auto simp: remainingQuestions_def askedQuestionIds_def filter_empty_conv)

lemma selectNextQuestion_fallback:
  "sc sid = Some ctx \<Longrightarrow> availableQuestions bank ctx = [] \<Longrightarrow> remainingQuestions bank ctx \<noteq> [] \<Longrightarrow>
   selectNextQuestion bank sc sid r = Some (hd (remainingQuestions bank ctx))"
  by (simp add: selectNextQuestion_def js_index_def hd_conv_nth)

lemma selectNextQuestion_exhausted:
  "sc sid = Some ctx \<Longrightarrow> remainingQuestions bank ctx = [] \<Longrightarrow>
   selectNextQuestion bank sc sid r = None"
  using available_subset_remaining[of bank ctx]
  by (simp add: selectNextQuestion_def)

lemma selectNextQuestion_random:
  assumes "sc sid = Some ctx" "availableQuestions bank ctx \<noteq> []" "0 \<le> r" "r < 1"
  shows "selectNextQuestion bank sc sid r =
           Some (selectedQuestions bank ctx ! nat \<lfloor>r * of_nat (length (selectedQuestions bank ctx))\<rfloor>)
         \<and> nat \<lfloor>r * of_nat (length (selectedQuestions bank ctx))\<rfloor> < length (selectedQuestions bank ctx)"
proof -
  have n: "0 < length (selectedQuestions bank ctx)"
    using selected_nonempty[OF assms(2)] by simp
  from random_index_in_range[OF assms(3,4) n]
  show ?thesis using assms(1,2) by (simp add: selectNextQuestion_def js_index_def nat_less_iff)
qed

lemma selectNextQuestion_None_iff:
  assumes "sc sid = Some ctx" "0 \<le> r" "r < 1"
  shows "selectNextQuestion bank sc sid r = None \<longleftrightarrow> remainingQuestions bank ctx = []"
proof (cases "remainingQuestions bank ctx = []")
  case True
  then show ?thesis using selectNextQuestion_exhausted[of sc sid ctx bank r] assms(1) by simp
next
  case False
  show ?thesis
  proof (cases "availableQuestions bank ctx = []")
    case True
    with False selectNextQuestion_fallback[of sc sid ctx bank r] assms(1) show ?thesis by simp
  next
    case av: False
    with False selectNextQuestion_random[of sc sid ctx bank r] assms show ?thesis by simp
  qed
qed

lemma remaining_adjustDifficulty:
  "remainingQuestions bank (adjustDifficulty pf ctx) = remainingQuestions bank ctx"
  by (simp add: remainingQuestions_def askedQuestionIds_def adjustDifficulty_def split: option.splits)

lemma askNextQuestion_completed_iff:
  "(\<exists>summary. snd (askNextQuestion t svc) = [InterviewCompleted summary]) \<longleftrightarrow>
     length (svc_questionBank svc) \<le> svc_currentQuestionIndex svc"
  by (simp add: askNextQuestion_def endInterview_def Let_def)

lemma js_index_mem: "js_index xs i = Some x \<Longrightarrow> x \<in> set xs"
  by (auto simp: js_index_def nat_less_iff split: if_splits)

lemma selectNextQuestion_in_bank:
  assumes a: "selectNextQuestion bank sc sid r = Some q"
  shows "q \<in> set bank"
proof -
  from a obtain ctx where c: "sc sid = Some ctx"
    by (cases "sc sid") (simp_all add: selectNextQuestion_def)
  have rem: "set (remainingQuestions bank ctx) \<subseteq> set bank"
    by (auto simp: remainingQuestions_def)
  have sel: "set (selectedQuestions bank ctx) \<subseteq> set bank"
    using selected_subset_available[of bank ctx] by (auto simp: availableQuestions_def)
  from a c have "js_index (remainingQuestions bank ctx) 0 = Some q \<or>
      js_index (selectedQuestions bank ctx)
        \<lfloor>r * of_nat (length (selectedQuestions bank ctx))\<rfloor> = Some q"
    by (simp add: selectNextQuestion_def split: if_splits)
  then have "q \<in> set (remainingQuestions bank ctx) \<or> q \<in> set (selectedQuestions bank ctx)"
    using js_index_mem by fast
  then show ?thesis using rem sel by blast
qed

lemma handleNextQuestion_complete:
  assumes "sessionContext agent sid = Some ctx"
    and "selectNextQuestion (questionBank agent)
           ((sessionContext agent)(sid \<mapsto> adjustDifficulty pf ctx)) sid (rnd e) = None"
  shows "\<exists>m summary. snd (handleNextQuestion e sid pf agent) = [SendMessage m] \<and>
            msg_type m = ''command'' \<and> msg_content m = InterviewComplete summary"
  using assms by (simp add: handleNextQuestion_def Let_def)

lemma handleNextQuestion_question:
  assumes "sessionContext agent sid = Some ctx"
    and "selectNextQuestion (questionBank agent)
           ((sessionContext agent)(sid \<mapsto> adjustDifficulty pf ctx)) sid (rnd e) = Some q"
  shows "\<exists>m audioUrl. snd (handleNextQuestion e sid pf agent) = [SendMessage m] \<and>
            msg_type m = ''question'' \<and>
            msg_content m = QuestionContent (q_id q) (q_question q) (q_category q) audioUrl (q_context q)"
  using assms by (simp add: handleNextQuestion_def Let_def questionMessage_def)

text \<open>
  Claim C4. For an existing session and a random draw in \<open>[0, 1)\<close>, \<open>selectNextQuestion\<close>
  returns \<open>null\<close> if and only if the id of every question of the bank occurs in the
  session's asked questions; then \<open>handleNextQuestion\<close> sends the command
  \<open>interview-complete\<close>, and otherwise it sends a question of the bank. In the frontend
  service, \<open>askNextQuestion\<close> ends the interview exactly when the current question index
  has reached the length of the bank.
\<close>

theorem termination_condition:
  assumes "sessionContext agent sid = Some ctx" and "0 \<le> rnd e" and "rnd e < 1"
  shows
   "(selectNextQuestion (questionBank agent) (sessionContext agent) sid (rnd e) = None \<longleftrightarrow>
       (\<forall>q \<in> set (questionBank agent). q_id q \<in> questionId ` set (questionsAsked ctx))) \<and>
    ((\<forall>q \<in> set (questionBank agent). q_id q \<in> questionId ` set (questionsAsked ctx)) \<longrightarrow>
       (\<exists>m summary. snd (handleNextQuestion e sid pf agent) = [SendMessage m] \<and>
            msg_type m = ''command'' \<and> msg_content m = InterviewComplete summary)) \<and>
    (\<not> (\<forall>q \<in> set (questionBank agent). q_id q \<in> questionId ` set (questionsAsked ctx)) \<longrightarrow>
       (\<exists>m q audioUrl. snd (handleNextQuestion e sid pf agent) = [SendMessage m] \<and>
            msg_type m = ''question'' \<and> q \<in> set (questionBank agent) \<and>
            msg_content m = QuestionContent (q_id q) (q_question q) (q_category q) audioUrl (q_context q))) \<and>
    ((\<exists>summary. snd (askNextQuestion t svc) = [InterviewCompleted summary]) \<longleftrightarrow>
       length (svc_questionBank svc) \<le> svc_currentQuestionIndex svc)"
proof -
  let ?ex = "\<forall>q \<in> set (questionBank agent). q_id q \<in> questionId ` set (questionsAsked ctx)"
  let ?sc' = "(sessionContext agent)(sid \<mapsto> adjustDifficulty pf ctx)"
  have 1: "selectNextQuestion (questionBank agent) (sessionContext agent) sid (rnd e) = None \<longleftrightarrow> ?ex"
    using selectNextQuestion_None_iff[of "sessionContext agent" sid ctx "rnd e" "questionBank agent"] assms
      remaining_empty_iff[of "questionBank agent" ctx] by simp
  have look: "?sc' sid = Some (adjustDifficulty pf ctx)" by simp
  have sel: "selectNextQuestion (questionBank agent) ?sc' sid (rnd e) = None \<longleftrightarrow> ?ex"
    using selectNextQuestion_None_iff[of ?sc' sid "adjustDifficulty pf ctx" "rnd e" "questionBank agent"]
      look assms(2,3) remaining_empty_iff[of "questionBank agent" ctx]
    by (simp add: remaining_adjustDifficulty)
  have 2: "?ex \<longrightarrow> (\<exists>m summary. snd (handleNextQuestion e sid pf agent) = [SendMessage m] \<and>
            msg_type m = ''command'' \<and> msg_content m = InterviewComplete summary)"
    using sel handleNextQuestion_complete[OF assms(1), of pf e] by blast
  have 3: "\<not> ?ex \<longrightarrow> (\<exists>m q audioUrl. snd (handleNextQuestion e sid pf agent) = [SendMessage m] \<and>
            msg_type m = ''question'' \<and> q \<in> set (questionBank agent) \<and>
            msg_content m = QuestionContent (q_id q) (q_question q) (q_category q) audioUrl (q_context q))"
  proof
    assume ne: "\<not> ?ex"
    then obtain q where q: "selectNextQuestion (questionBank agent) ?sc' sid (rnd e) = Some q"
      using sel by auto
    have "q \<in> set (questionBank agent)" using q by (rule selectNextQuestion_in_bank)
    then show "\<exists>m q audioUrl. snd (handleNextQuestion e sid pf agent) = [SendMessage m] \<and>
            msg_type m = ''question'' \<and> q \<in> set (questionBank agent) \<and>
            msg_content m = QuestionContent (q_id q) (q_question q) (q_category q) audioUrl (q_context q)"
      using handleNextQuestion_question[OF assms(1) q] by blast
  qed
  show ?thesis using 1 2 3 askNextQuestion_completed_iff[of t svc] by blast
qed

theorem termination_condition_witness:
  "selectNextQuestion (questionBank done_agent) (sessionContext done_agent) ''s1'' (rnd env0) = None \<and>
   (\<exists>m summary. snd (handleNextQuestion env0 ''s1'' None done_agent) = [SendMessage m] \<and>
       msg_type m = ''command'' \<and> msg_content m = InterviewComplete summary) \<and>
   (\<exists>m q audioUrl. snd (handleNextQuestion env0 ''s1'' None hard_agent) = [SendMessage m] \<and>
       msg_type m = ''question'' \<and> q \<in> set (questionBank hard_agent) \<and>
       msg_content m = QuestionContent (q_id q) (q_question q) (q_category q) audioUrl (q_context q)) \<and>
   (\<exists>summary. snd (askNextQuestion 1000 done_service) = [InterviewCompleted summary])"
proof -
  have s: "sessionContext done_agent ''s1'' = Some done_ctx" by (simp add: done_agent_def)
  have s': "sessionContext hard_agent ''s1'' = Some hard_ctx" by (simp add: hard_agent_def)
  have r: "0 \<le> rnd env0" "rnd env0 < 1" by (simp_all add: env0_def)
  have ex: "\<forall>q \<in> set (questionBank done_agent). q_id q \<in> questionId ` set (questionsAsked done_ctx)"
    by (simp add: done_agent_def new_InterviewerAgent_def done_ctx_def initializeQuestionBank_def answered_def)
  have nex: "\<not> (\<forall>q \<in> set (questionBank hard_agent). q_id q \<in> questionId ` set (questionsAsked hard_ctx))"
    by (auto simp: hard_agent_def new_InterviewerAgent_def hard_ctx_def initializeQuestionBank_def)
  have l: "length (svc_questionBank done_service) \<le> svc_currentQuestionIndex done_service"
    by (simp add: done_service_def new_InterviewService_def service_initializeQuestionBank_def)
  from termination_condition[OF s r, of None 1000 done_service] ex l
  have a: "selectNextQuestion (questionBank done_agent) (sessionContext done_agent) ''s1'' (rnd env0) = None"
    and b: "\<exists>m summary. snd (handleNextQuestion env0 ''s1'' None done_agent) = [SendMessage m] \<and>
       msg_type m = ''command'' \<and> msg_content m = InterviewComplete summary"
    and d: "\<exists>summary. snd (askNextQuestion 1000 done_service) = [InterviewCompleted summary]"
    by blast+
  from termination_condition[OF s' r, of None 1000 done_service] nex
  have c: "\<exists>m q audioUrl. snd (handleNextQuestion env0 ''s1'' None hard_agent) = [SendMessage m] \<and>
       msg_type m = ''question'' \<and> q \<in> set (questionBank hard_agent) \<and>
       msg_content m = QuestionContent (q_id q) (q_question q) (q_category q) audioUrl (q_context q)"
    by blast
  show ?thesis using a b c d by blast
qed

subsection \<open>Session records\<close>

lemma dom_handleStartSession:
  "dom (sessionContext agent) \<subseteq> dom (sessionContext (fst (handleStartSession e sid profile agent)))"
  by (auto simp: handleStartSession_def Let_def split: option.splits)

lemma dom_handleCandidateAnswer:
  "dom (sessionContext agent) \<subseteq> dom (sessionContext (fst (handleCandidateAnswer e sid a qid agent)))"
  by (auto simp: handleCandidateAnswer_def Let_def split: option.splits)

lemma dom_handleNextQuestion:
  "dom (sessionContext agent) \<subseteq> dom (sessionContext (fst (handleNextQuestion e sid pf agent)))"
  by (auto simp: handleNextQuestion_def Let_def split: option.splits)

lemma dom_interviewerStep:
  "dom (sessionContext agent) \<subseteq> dom (sessionContext (fst (interviewerStep e op agent)))"
proof (cases op)
  case (StartSession x11 x12)
  then show ?thesis using dom_handleStartSession by simp
next
  case (CandidateAnswer x21 x22 x23)
  then show ?thesis using dom_handleCandidateAnswer by simp
next
  case (NextQuestion x31 x32)
  then show ?thesis using dom_handleNextQuestion by simp
next
  case (GenerateAudio x41 x42)
  then show ?thesis by (simp add: handleGenerateAudio_def)
next
  case (UpdateTTSConfig x5)
  then show ?thesis by (simp add: updateTTSConfig_def)
next
  case (AddCustomQuestion x61 x62)
  then show ?thesis by (simp add: addCustomQuestion_def)
next
  case HealthCheck
  then show ?thesis by simp
qed

lemma handleStartSession_context:
  "sessionContext (fst (handleStartSession e sid profile agent)) sid =
     Some \<lparr> currentQuestionIndex = 0, questionsAsked = [], candidateProfile = profile,
            startTime = now e, difficulty = Easy \<rparr>"
  by (simp add: handleStartSession_def Let_def split: option.splits)

lemma handleCandidateAnswer_appends:
  "sessionContext agent sid = Some ctx \<Longrightarrow>
   sessionContext (fst (handleCandidateAnswer e sid a qid agent)) sid =
     Some (ctx \<lparr> questionsAsked := questionsAsked ctx @
        [\<lparr> questionId = qid,
           question = map_option q_question (List.find (\<lambda>q. q_id q = qid) (questionBank agent)),
           answer = a, timestamp = now e \<rparr>] \<rparr>)"
  by (simp add: handleCandidateAnswer_def Let_def)

text \<open>
  Claim C9. \<open>handleStartSession\<close> stores, under the given session identifier, a context
  with an empty list of asked questions, difficulty easy and the start time; a candidate
  answer handled for an existing session appends exactly one entry (with the answer and
  the question id) to that session's list; and no operation of the agent removes a
  session record.
\<close>

theorem session_record_invariant:
  "sessionContext (fst (handleStartSession e sid profile agent)) sid =
     Some \<lparr> currentQuestionIndex = 0, questionsAsked = [], candidateProfile = profile,
            startTime = now e, difficulty = Easy \<rparr> \<and>
   (sessionContext agent sid = Some ctx \<longrightarrow>
      (\<exists>entry. map_option questionsAsked (sessionContext (fst (handleCandidateAnswer e sid a qid agent)) sid)
                  = Some (questionsAsked ctx @ [entry]) \<and>
               questionId entry = qid \<and> answer entry = a)) \<and>
   dom (sessionContext agent) \<subseteq> dom (sessionContext (fst (interviewerStep e op agent)))"
  using handleStartSession_context[of e sid profile agent] dom_interviewerStep[of agent e op]
  by (auto simp: handleCandidateAnswer_appends)

theorem session_record_invariant_witness:
  "sessionContext (fst (handleStartSession env0 ''s1'' None hard_agent)) ''s1'' =
     Some \<lparr> currentQuestionIndex = 0, questionsAsked = [], candidateProfile = None,
            startTime = 1000, difficulty = Easy \<rparr> \<and>
   (\<exists>entry. map_option questionsAsked
               (sessionContext (fst (handleCandidateAnswer env0 ''s1'' ''An answer.'' ''intro-1'' hard_agent)) ''s1'')
               = Some [entry] \<and>
             questionId entry = ''intro-1'' \<and> answer entry = ''An answer.'') \<and>
   ''s1'' \<in> dom (sessionContext (fst (interviewerStep env0 (StartSession ''s2'' None) hard_agent)))"
proof -
  have s: "sessionContext hard_agent ''s1'' = Some hard_ctx" by (simp add: hard_agent_def)
  have d: "''s1'' \<in> dom (sessionContext hard_agent)" using s by blast
  have n: "now env0 = 1000" by (simp add: env0_def)
  have q: "questionsAsked hard_ctx = []" by (simp add: hard_ctx_def)
  note t = session_record_invariant[of env0 "''s1''" None hard_agent hard_ctx "''An answer.''" "''intro-1''"
      "StartSession ''s2'' None"]
  from t have a: "sessionContext (fst (handleStartSession env0 ''s1'' None hard_agent)) ''s1'' =
     Some \<lparr> currentQuestionIndex = 0, questionsAsked = [], candidateProfile = None,
            startTime = 1000, difficulty = Easy \<rparr>"
    unfolding n by (rule conjunct1)
  from t s have b: "\<exists>entry. map_option questionsAsked
               (sessionContext (fst (handleCandidateAnswer env0 ''s1'' ''An answer.'' ''intro-1'' hard_agent)) ''s1'')
               = Some (questionsAsked hard_ctx @ [entry]) \<and>
             questionId entry = ''intro-1'' \<and> answer entry = ''An answer.''"
    by blast
  from t d have c: "''s1'' \<in> dom (sessionContext (fst (interviewerStep env0 (StartSession ''s2'' None) hard_agent)))"
    by blast
  show ?thesis using a b c unfolding q append_Nil by (intro conjI)
qed

subsection \<open>Category diversification\<close>

text \<open>
  The entries of \<open>questionsAsked\<close> carry no category, so the last category is always
  \<open>undefined\<close> and the filter for a different category keeps every available question.
\<close>

lemma lastCategory_None: "lastCategory ctx = None"
  by (simp add: lastCategory_def entry_category_def)

lemma differentCategory_all:
  "differentCategoryQuestions bank ctx = availableQuestions bank ctx"
  by (simp add: differentCategoryQuestions_def lastCategory_None)

text \<open>
  Claim C3 at a concrete input. After the answer to \<open>technical-1\<close> and a score of \<open>7\<close>,
  the available questions have the categories \<open>experience\<close>, \<open>development\<close> and
  \<open>technical\<close>; with the draw \<open>9/10\<close> the agent asks the custom question, whose category
  is again \<open>technical\<close>, although two available questions have another category.
\<close>

theorem category_diversification_fails:
  "lastAskedCategory custom_agent ''s1'' = Some ''technical'' \<and>
   availableCategories
     (fst (handleNextQuestion env_next ''s1'' (Some \<lparr> fb_score = Some 7 \<rparr>) custom_agent)) ''s1''
     = [''experience'', ''development'', ''technical''] \<and>
   sentCategories (snd (handleNextQuestion env_next ''s1'' (Some \<lparr> fb_score = Some 7 \<rparr>) custom_agent))
     = [''technical'']"
  by code_simp

subsection \<open>Selection among the candidates\<close>

lemma selected_eq_available: "selectedQuestions bank ctx = availableQuestions bank ctx"
  by (simp add: selectedQuestions_def differentCategory_all)

lemma available_eq_candidates:
  "availableQuestions bank ctx =
     filter (\<lambda>q. q_difficulty q = difficulty ctx \<or> questionsAsked ctx = [])
       (filter (\<lambda>q. q_id q \<notin> questionId ` set (questionsAsked ctx)) bank)"
  by (auto simp: availableQuestions_def askedQuestionIds_def intro: filter_cong)

lemma remaining_eq_unasked:
  "remainingQuestions bank ctx = filter (\<lambda>q. q_id q \<notin> questionId ` set (questionsAsked ctx)) bank"
  by (simp add: remainingQuestions_def askedQuestionIds_def)

lemma index_in_interval:
  fixes r :: rat
  assumes "0 < n" "of_nat i / of_nat n + 1 / 2 ^ 50 \<le> r" "r \<le> (of_nat i + 1) / of_nat n - 1 / 2 ^ 50"
  shows "nat \<lfloor>r * of_nat n\<rfloor> = i"
proof -
  have n: "(0::rat) < of_nat n" using assms(1) by simp
  have "of_nat i / of_nat n \<le> r" using assms(2) by (simp add: add_increasing2 le_diff_eq [symmetric])
  then have lo: "of_int (int i) \<le> r * of_nat n" using n by (simp add: divide_le_eq)
  have "r < (of_nat i + 1) / of_nat n"
  proof -
    have "(0::rat) < 1 / 2 ^ 50" by simp
    then show ?thesis using assms(3) by linarith
  qed
  then have hi: "r * of_nat n < of_int (int i) + 1" using n by (simp add: less_divide_eq)
  from lo hi have "\<lfloor>r * of_nat n\<rfloor> = int i" by (rule floor_unique)
  then show ?thesis by simp
qed

text \<open>
  Claim C1. The agent's bank has six questions and the service's eight. For an existing
  session and a random draw \<open>r\<close> in \<open>[0, 1)\<close>, let the candidates be the questions of the
  bank, in bank order, whose id is not among the session's asked questions and whose
  difficulty is the session's current one, the difficulty being ignored while nothing
  has been asked. If there are candidates, \<open>selectNextQuestion\<close> returns one of them,
  by an index that the draw alone decides: among \<open>n\<close> candidates, candidate \<open>i\<close> for every
  draw from \<open>i/n\<close> to \<open>(i+1)/n\<close>, a margin of \<open>2 powi (- 50)\<close> at both ends apart. If
  there is no candidate but an unasked question, it returns the first unasked question
  in bank order; if every question has been asked, it returns \<open>null\<close>.
\<close>

theorem question_selection:
  assumes "sc sid = Some ctx" and "0 \<le> r" and "r < 1"
  shows
   "length initializeQuestionBank = 6 \<and> length service_initializeQuestionBank = 8 \<and>
    (let unasked = filter (\<lambda>q. q_id q \<notin> questionId ` set (questionsAsked ctx)) bank;
         candidates = filter (\<lambda>q. q_difficulty q = difficulty ctx \<or> questionsAsked ctx = []) unasked
     in (candidates \<noteq> [] \<longrightarrow>
           (\<exists>i < length candidates. selectNextQuestion bank sc sid r = Some (candidates ! i)) \<and>
           (\<forall>i < length candidates.
              of_nat i / of_nat (length candidates) + 1 / 2 ^ 50 \<le> r \<and>
              r \<le> (of_nat i + 1) / of_nat (length candidates) - 1 / 2 ^ 50 \<longrightarrow>
              selectNextQuestion bank sc sid r = Some (candidates ! i))) \<and>
        (candidates = [] \<and> unasked \<noteq> [] \<longrightarrow>
           selectNextQuestion bank sc sid r = Some (hd unasked)) \<and>
        (unasked = [] \<longrightarrow> selectNextQuestion bank sc sid r = None))"
proof -
  let ?unasked = "filter (\<lambda>q. q_id q \<notin> questionId ` set (questionsAsked ctx)) bank"
  let ?cands = "filter (\<lambda>q. q_difficulty q = difficulty ctx \<or> questionsAsked ctx = []) ?unasked"
  have av: "availableQuestions bank ctx = ?cands" by (rule available_eq_candidates)
  have se: "selectedQuestions bank ctx = ?cands" by (simp only: selected_eq_available av)
  have re: "remainingQuestions bank ctx = ?unasked" by (rule remaining_eq_unasked)
  have len: "length initializeQuestionBank = 6 \<and> length service_initializeQuestionBank = 8"
    by (simp add: initializeQuestionBank_def service_initializeQuestionBank_def)
  have A: "?cands \<noteq> [] \<longrightarrow>
           (\<exists>i < length ?cands. selectNextQuestion bank sc sid r = Some (?cands ! i)) \<and>
           (\<forall>i < length ?cands.
              of_nat i / of_nat (length ?cands) + 1 / 2 ^ 50 \<le> r \<and>
              r \<le> (of_nat i + 1) / of_nat (length ?cands) - 1 / 2 ^ 50 \<longrightarrow>
              selectNextQuestion bank sc sid r = Some (?cands ! i))"
  proof
    assume ne: "?cands \<noteq> []"
    have ne': "availableQuestions bank ctx \<noteq> []" using ne unfolding av .
    from selectNextQuestion_random[of sc sid ctx bank r] assms ne'
    have s: "selectNextQuestion bank sc sid r = Some (?cands ! nat \<lfloor>r * of_nat (length ?cands)\<rfloor>)"
      and k: "nat \<lfloor>r * of_nat (length ?cands)\<rfloor> < length ?cands"
      unfolding se by blast+
    have n: "0 < length ?cands" using ne by simp
    have B: "\<forall>i < length ?cands.
              of_nat i / of_nat (length ?cands) + 1 / 2 ^ 50 \<le> r \<and>
              r \<le> (of_nat i + 1) / of_nat (length ?cands) - 1 / 2 ^ 50 \<longrightarrow>
              selectNextQuestion bank sc sid r = Some (?cands ! i)"
    proof (intro allI impI)
      fix i
      assume "i < length ?cands"
        and h: "of_nat i / of_nat (length ?cands) + 1 / 2 ^ 50 \<le> r \<and>
              r \<le> (of_nat i + 1) / of_nat (length ?cands) - 1 / 2 ^ 50"
      from index_in_interval[OF n] h have "nat \<lfloor>r * of_nat (length ?cands)\<rfloor> = i" by blast
      then show "selectNextQuestion bank sc sid r = Some (?cands ! i)" using s by simp
    qed
    show "(\<exists>i < length ?cands. selectNextQuestion bank sc sid r = Some (?cands ! i)) \<and>
           (\<forall>i < length ?cands.
              of_nat i / of_nat (length ?cands) + 1 / 2 ^ 50 \<le> r \<and>
              r \<le> (of_nat i + 1) / of_nat (length ?cands) - 1 / 2 ^ 50 \<longrightarrow>
              selectNextQuestion bank sc sid r = Some (?cands ! i))"
      using s k B by blast
  qed
  have C: "?cands = [] \<and> ?unasked \<noteq> [] \<longrightarrow> selectNextQuestion bank sc sid r = Some (hd ?unasked)"
    using selectNextQuestion_fallback[of sc sid ctx bank r] assms(1) unfolding av re by blast
  have D: "?unasked = [] \<longrightarrow> selectNextQuestion bank sc sid r = None"
    using selectNextQuestion_exhausted[of sc sid ctx bank r] assms(1) unfolding re by blast
  show ?thesis unfolding Let_def using len A C D by blast
qed

theorem question_selection_witness:
  "selectNextQuestion initializeQuestionBank [''s1'' \<mapsto> one_asked_ctx] ''s1'' (1 / 2) = Some technical_1 \<and>
   filter (\<lambda>q. q_difficulty q = difficulty one_asked_ctx \<or> questionsAsked one_asked_ctx = [])
     (filter (\<lambda>q. q_id q \<notin> questionId ` set (questionsAsked one_asked_ctx)) initializeQuestionBank)
     = [experience_1, technical_1, growth_1] \<and>
   length initializeQuestionBank = 6"
proof -
  let ?cands = "filter (\<lambda>q. q_difficulty q = difficulty one_asked_ctx \<or> questionsAsked one_asked_ctx = [])
     (filter (\<lambda>q. q_id q \<notin> questionId ` set (questionsAsked one_asked_ctx)) initializeQuestionBank)"
  have s: "[''s1'' \<mapsto> one_asked_ctx] ''s1'' = Some one_asked_ctx" by simp
  have r: "(0::rat) \<le> 1 / 2" "(1 / 2 :: rat) < 1" by simp_all
  have c: "?cands = [experience_1, technical_1, growth_1]"
    by code_simp
  note t = question_selection[where sc = "[''s1'' \<mapsto> one_asked_ctx]" and sid = "''s1''"
      and ctx = one_asked_ctx and r = "1 / 2" and bank = initializeQuestionBank, OF s r,
      unfolded Let_def c]
  have i: "of_nat 1 / of_nat (length [experience_1, technical_1, growth_1]) + 1 / 2 ^ 50 \<le> (1 / 2 :: rat) \<and>
      (1 / 2 :: rat) \<le> (of_nat 1 + 1) / of_nat (length [experience_1, technical_1, growth_1]) - 1 / 2 ^ 50"
    by simp
  from t i have "selectNextQuestion initializeQuestionBank [''s1'' \<mapsto> one_asked_ctx] ''s1'' (1 / 2)
      = Some ([experience_1, technical_1, growth_1] ! 1)"
    by (metis One_nat_def length_Cons lessI list.distinct(1) list.size(3) Suc_lessI less_Suc_eq numeral_3_eq_3 zero_less_Suc)
  then have sel: "selectNextQuestion initializeQuestionBank [''s1'' \<mapsto> one_asked_ctx] ''s1'' (1 / 2)
      = Some technical_1"
    by simp
  from t have "length initializeQuestionBank = 6" by blast
  then show ?thesis using sel c by simp
qed

subsection \<open>Routing retries of the master agent\<close>

text \<open>
  In every state that routing and timers lead to from the constructor, the pending timers
  are as many as the queued messages: both operations keep the two numbers equal.
\<close>

lemma timers_emitRoutingError:
  "pendingRetries m = length (messageQueue m) \<Longrightarrow>
   pendingRetries (emitRoutingError y m) = length (messageQueue (emitRoutingError y m))"
  by (simp add: emitRoutingError_def handleRoutingError_def)

lemma timers_routeOne:
  "pendingRetries m = length (messageQueue m) \<Longrightarrow>
   pendingRetries (routeOne delivers y m) = length (messageQueue (routeOne delivers y m))"
  by (simp add: routeOne_def Let_def forward_def storeInHistory_def emitRoutingError_def
        handleRoutingError_def split: option.splits)

lemma timers_routeMessage:
  "pendingRetries m = length (messageQueue m) \<Longrightarrow>
   pendingRetries (routeMessage delivers y m) = length (messageQueue (routeMessage delivers y m))"
proof -
  assume a: "pendingRetries m = length (messageQueue m)"
  show ?thesis
  proof (cases "sessions m (msg_sessionId y)")
    case None
    then show ?thesis using a
      by (simp add: routeMessage_def Let_def emitRoutingError_def handleRoutingError_def)
  next
    case (Some session)
    let ?m2 = "storeInHistory y session (m \<lparr> routed := routed m @ [y] \<rparr>)"
    have b: "pendingRetries ?m2 = length (messageQueue ?m2)"
      using a by (simp add: storeInHistory_def)
    show ?thesis
    proof (cases "msg_to y = ''all''")
      case True
      then have e: "routeMessage delivers y m = broadcastMessage delivers y ?m2"
        using Some by (simp add: routeMessage_def Let_def)
      show ?thesis unfolding e broadcastMessage_def
        using b by (simp add: timers_routeOne)
    next
      case False
      then have e: "routeMessage delivers y m = forward delivers y ?m2"
        using Some by (simp add: routeMessage_def Let_def)
      show ?thesis unfolding e
        using b by (simp add: forward_def emitRoutingError_def handleRoutingError_def)
    qed
  qed
qed

lemma timers_retryTimerFires:
  "pendingRetries m = length (messageQueue m) \<Longrightarrow>
   pendingRetries (retryTimerFires delivers m) = length (messageQueue (retryTimerFires delivers m))"
proof (cases "messageQueue m")
  case Nil
  assume "pendingRetries m = length (messageQueue m)"
  then show ?thesis using Nil by (simp add: retryTimerFires_def)
next
  case (Cons x rest)
  assume a: "pendingRetries m = length (messageQueue m)"
  let ?m1 = "m \<lparr> pendingRetries := pendingRetries m - 1, messageQueue := rest \<rparr>"
  have e: "retryTimerFires delivers m = routeMessage delivers x ?m1"
    using a Cons by (simp add: retryTimerFires_def Let_def)
  have "pendingRetries ?m1 = length (messageQueue ?m1)" using a Cons by simp
  then show ?thesis unfolding e by (rule timers_routeMessage)
qed

lemma undeliverable_cong:
  "(\<And>k. (sessions m' k = None) = (sessions m k = None)) \<Longrightarrow>
   undeliverable delivers y m' = undeliverable delivers y m"
  by (simp add: undeliverable_def)

lemma routeMessage_undeliverable:
  assumes "routingSetUp m" and "undeliverable delivers message m"
  shows "messageQueue (routeMessage delivers message m) = messageQueue m @ [message] \<and>
         pendingRetries (routeMessage delivers message m) = pendingRetries m + 1 \<and>
         routed (routeMessage delivers message m) = routed m @ [message] \<and>
         routingSetUp (routeMessage delivers message m) \<and>
         (\<forall>k. (sessions (routeMessage delivers message m) k = None) = (sessions m k = None))"
proof (cases "sessions m (msg_sessionId message)")
  case None
  then show ?thesis using assms(1)
    by (simp add: routeMessage_def Let_def emitRoutingError_def handleRoutingError_def)
next
  case (Some session)
  with assms(2) have f: "(msg_to message = ''interviewer-agent'' \<or> msg_to message = ''analyzer-agent'')
      \<and> \<not> delivers message"
    by (simp add: undeliverable_def)
  then have na: "msg_to message \<noteq> ''all''" by auto
  show ?thesis using Some f na assms(1)
    by (auto simp: routeMessage_def Let_def forward_def storeInHistory_def emitRoutingError_def
          handleRoutingError_def)
qed

lemma routed_routeOne: "routed (routeOne delivers y m) = routed m @ [y]"
  by (simp add: routeOne_def Let_def emitRoutingError_def handleRoutingError_def forward_def
        storeInHistory_def split: option.splits)

lemma routed_routeMessage: "\<exists>more. routed (routeMessage delivers x m) = routed m @ x # more"
proof (cases "sessions m (msg_sessionId x)")
  case None
  then show ?thesis
    by (simp add: routeMessage_def Let_def emitRoutingError_def handleRoutingError_def)
next
  case (Some session)
  show ?thesis
  proof (cases "msg_to x = ''all''")
    case True
    then show ?thesis using Some
      by (simp add: routeMessage_def Let_def broadcastMessage_def routed_routeOne storeInHistory_def)
  next
    case False
    then show ?thesis using Some
      by (simp add: routeMessage_def Let_def emitRoutingError_def handleRoutingError_def forward_def
            storeInHistory_def)
  qed
qed

lemma retryTimerFires_head:
  assumes "0 < pendingRetries m" and "messageQueue m = x # rest"
  shows "retryTimerFires delivers m =
           routeMessage delivers x (m \<lparr> pendingRetries := pendingRetries m - 1, messageQueue := rest \<rparr>)"
  using assms by (simp add: retryTimerFires_def Let_def)

lemma retryTimerFires_all_fail:
  assumes "all_fail delivers m" and "messageQueue m = x # rest"
  shows "all_fail delivers (retryTimerFires delivers m) \<and>
         messageQueue (retryTimerFires delivers m) = rest @ [x] \<and>
         routed (retryTimerFires delivers m) = routed m @ [x]"
proof -
  let ?m1 = "m \<lparr> pendingRetries := pendingRetries m - 1, messageQueue := rest \<rparr>"
  from assms have su: "routingSetUp m" and p: "pendingRetries m = Suc (length rest)"
    and u: "\<forall>y \<in> set (x # rest). undeliverable delivers y m"
    by (simp_all add: all_fail_def list_all_iff)
  have e: "retryTimerFires delivers m = routeMessage delivers x ?m1"
    using p assms(2) by (intro retryTimerFires_head) simp_all
  have su1: "routingSetUp ?m1" using su by simp
  have u1: "undeliverable delivers y ?m1 = undeliverable delivers y m" for y
    by (rule undeliverable_cong) simp
  have ux: "undeliverable delivers x ?m1" using u u1 by simp
  from routeMessage_undeliverable[OF su1 ux]
  have q: "messageQueue (routeMessage delivers x ?m1) = rest @ [x]"
    and pp: "pendingRetries (routeMessage delivers x ?m1) = Suc (length rest)"
    and r: "routed (routeMessage delivers x ?m1) = routed m @ [x]"
    and s: "routingSetUp (routeMessage delivers x ?m1)"
    and k: "\<forall>k. (sessions (routeMessage delivers x ?m1) k = None) = (sessions m k = None)"
    using p by simp_all
  have u2: "undeliverable delivers y (routeMessage delivers x ?m1) = undeliverable delivers y m" for y
    using k by (intro undeliverable_cong) simp
  show ?thesis unfolding e using q pp r s u u2
    by (simp add: all_fail_def list_all_iff)
qed

lemma retries_round:
  "all_fail delivers m \<Longrightarrow> messageQueue m = q1 @ q2 \<Longrightarrow>
   all_fail delivers (retries delivers (length q1) m) \<and>
   messageQueue (retries delivers (length q1) m) = q2 @ q1 \<and>
   routed (retries delivers (length q1) m) = routed m @ q1"
proof (induction q1 arbitrary: m q2)
  case Nil
  then show ?case by simp
next
  case (Cons x q1)
  from Cons.prems have q: "messageQueue m = x # (q1 @ q2)" by simp
  from retryTimerFires_all_fail[OF Cons.prems(1) q]
  have a: "all_fail delivers (retryTimerFires delivers m)"
    and b: "messageQueue (retryTimerFires delivers m) = q1 @ (q2 @ [x])"
    and c: "routed (retryTimerFires delivers m) = routed m @ [x]"
    by simp_all
  from Cons.IH[OF a b] c show ?case by simp
qed

lemma retries_add: "retries delivers (a + b) m = retries delivers b (retries delivers a m)"
  by (induction a arbitrary: m) simp_all

lemma attempts_append: "routed m' = routed m @ q \<Longrightarrow> attempts y m' = attempts y m + count_list q y"
  by (simp add: attempts_def count_list_eq_length_filter) (metis (mono_tags, lifting) filter_cong)

lemma retries_rounds:
  "all_fail delivers m \<Longrightarrow>
   all_fail delivers (retries delivers (k * length (messageQueue m)) m) \<and>
   messageQueue (retries delivers (k * length (messageQueue m)) m) = messageQueue m \<and>
   (\<forall>y. attempts y (retries delivers (k * length (messageQueue m)) m)
          = attempts y m + k * count_list (messageQueue m) y)"
proof (induction k)
  case 0
  then show ?case by simp
next
  case (Suc k)
  let ?q = "messageQueue m"
  let ?mk = "retries delivers (k * length ?q) m"
  from Suc have a: "all_fail delivers ?mk" and q: "messageQueue ?mk = ?q"
    and att: "\<forall>y. attempts y ?mk = attempts y m + k * count_list ?q y"
    by simp_all
  from q have q': "messageQueue ?mk = ?q @ []" by simp
  from retries_round[OF a q']
  have a': "all_fail delivers (retries delivers (length ?q) ?mk)"
    and b': "messageQueue (retries delivers (length ?q) ?mk) = ?q"
    and c': "routed (retries delivers (length ?q) ?mk) = routed ?mk @ ?q"
    by simp_all
  have e: "retries delivers (Suc k * length ?q) m = retries delivers (length ?q) ?mk"
    using retries_add[of delivers "k * length ?q" "length ?q" m] by (simp add: add.commute)
  show ?case unfolding e using a' b' attempts_append[OF c'] att by simp
qed

text \<open>
  Claim C8, as the code has it, for a master agent whose listeners are registered. Each
  routing failure (unknown session, or a failing request to the interviewer or the
  analyzer) appends the failed message to the queue once and sets one timer, whatever
  the queue holds. A timer that fires takes the message at the head of the queue and
  routes it again. So when every queued message fails and has its timer pending, after
  \<open>k\<close> rounds of timers the queue is as before and every message has been handed to
  \<open>routeMessage\<close> \<open>k\<close> more times for each place it has in the queue, for every \<open>k\<close>:
  the number of retries has no bound and no queued message is left out.
\<close>

theorem retry_unbounded:
  "(routingSetUp m \<and> undeliverable delivers message m \<longrightarrow>
      messageQueue (routeMessage delivers message m) = messageQueue m @ [message] \<and>
      pendingRetries (routeMessage delivers message m) = pendingRetries m + 1) \<and>
   (0 < pendingRetries m \<and> messageQueue m = x # rest \<longrightarrow>
      retryTimerFires delivers m =
        routeMessage delivers x (m \<lparr> pendingRetries := pendingRetries m - 1, messageQueue := rest \<rparr>) \<and>
      (\<exists>more. routed (retryTimerFires delivers m) = routed m @ x # more)) \<and>
   (routingSetUp m \<and> pendingRetries m = length (messageQueue m) \<and>
    (\<forall>y \<in> set (messageQueue m). undeliverable delivers y m) \<longrightarrow>
      messageQueue (retries delivers (k * length (messageQueue m)) m) = messageQueue m \<and>
      pendingRetries (retries delivers (k * length (messageQueue m)) m) = length (messageQueue m) \<and>
      (\<forall>y. attempts y (retries delivers (k * length (messageQueue m)) m)
             = attempts y m + k * count_list (messageQueue m) y))"
proof (intro conjI impI)
  assume "routingSetUp m \<and> undeliverable delivers message m"
  then show "messageQueue (routeMessage delivers message m) = messageQueue m @ [message]"
    and "pendingRetries (routeMessage delivers message m) = pendingRetries m + 1"
    using routeMessage_undeliverable[of m delivers message] by simp_all
next
  assume h: "0 < pendingRetries m \<and> messageQueue m = x # rest"
  show e: "retryTimerFires delivers m =
        routeMessage delivers x (m \<lparr> pendingRetries := pendingRetries m - 1, messageQueue := rest \<rparr>)"
    using h by (intro retryTimerFires_head) simp_all
  show "\<exists>more. routed (retryTimerFires delivers m) = routed m @ x # more"
    unfolding e
    using routed_routeMessage[of delivers x "m \<lparr> pendingRetries := pendingRetries m - 1, messageQueue := rest \<rparr>"]
    by simp
next
  assume h: "routingSetUp m \<and> pendingRetries m = length (messageQueue m) \<and>
    (\<forall>y \<in> set (messageQueue m). undeliverable delivers y m)"
  then have a: "all_fail delivers m" by (simp add: all_fail_def list_all_iff)
  from retries_rounds[OF a, of k]
  show "messageQueue (retries delivers (k * length (messageQueue m)) m) = messageQueue m"
    and "pendingRetries (retries delivers (k * length (messageQueue m)) m) = length (messageQueue m)"
    and "\<forall>y. attempts y (retries delivers (k * length (messageQueue m)) m)
             = attempts y m + k * count_list (messageQueue m) y"
    by (simp_all add: all_fail_def)
qed

theorem retry_unbounded_witness:
  "messageQueue (routeMessage (\<lambda>_. True) lost_message ready_agent) = [lost_message] \<and>
   pendingRetries (routeMessage (\<lambda>_. True) lost_message ready_agent) = 1 \<and>
   messageQueue (retries (\<lambda>_. True) 6 two_lost) = [lost_message, lost_message2] \<and>
   attempts lost_message (retries (\<lambda>_. True) 6 two_lost) = 4 \<and>
   attempts lost_message2 (retries (\<lambda>_. True) 6 two_lost) = 4"
proof -
  have s: "routingSetUp ready_agent \<and> undeliverable (\<lambda>_. True) lost_message ready_agent"
    by code_simp
  have q0: "messageQueue ready_agent = []" and p0: "pendingRetries ready_agent = 0"
    by (simp_all add: ready_agent_def setupMessageRouting_def new_MasterAgent_def)
  from retry_unbounded[of ready_agent "\<lambda>_. True" lost_message] s q0 p0
  have a: "messageQueue (routeMessage (\<lambda>_. True) lost_message ready_agent) = [lost_message]"
    and b: "pendingRetries (routeMessage (\<lambda>_. True) lost_message ready_agent) = 1"
    by simp_all
  have h: "routingSetUp two_lost \<and> pendingRetries two_lost = length (messageQueue two_lost) \<and>
      (\<forall>y \<in> set (messageQueue two_lost). undeliverable (\<lambda>_. True) y two_lost)"
    by code_simp
  have q: "messageQueue two_lost = [lost_message, lost_message2]" by code_simp
  have a1: "attempts lost_message two_lost = 1" by code_simp
  have a2: "attempts lost_message2 two_lost = 1" by code_simp
  have c1: "count_list [lost_message, lost_message2] lost_message = 1" by code_simp
  have c2: "count_list [lost_message, lost_message2] lost_message2 = 1" by code_simp
  from retry_unbounded[of two_lost "\<lambda>_. True" _ _ _ 3] h
  have r: "messageQueue (retries (\<lambda>_. True) (3 * length (messageQueue two_lost)) two_lost)
             = messageQueue two_lost"
    and t: "\<forall>y. attempts y (retries (\<lambda>_. True) (3 * length (messageQueue two_lost)) two_lost)
             = attempts y two_lost + 3 * count_list (messageQueue two_lost) y"
    by blast+
  have six: "3 * length [lost_message, lost_message2] = 6" by simp
  from r have r': "messageQueue (retries (\<lambda>_. True) 6 two_lost) = [lost_message, lost_message2]"
    unfolding q six .
  from t have t1: "attempts lost_message (retries (\<lambda>_. True) 6 two_lost) = 4"
    unfolding q six using a1 c1 by simp
  from t have t2: "attempts lost_message2 (retries (\<lambda>_. True) 6 two_lost) = 4"
    unfolding q six using a2 c2 by simp
  show ?thesis using a b r' t1 t2 by simp
qed

text \<open>
  The claim as written allows one retry. After two firings of the timer the lost message
  has been routed three times, so it was sent again twice.
\<close>

theorem retry_once_counterexample:
  "attempts lost_message
     (retries (\<lambda>_. True) 2 (routeMessage (\<lambda>_. True) lost_message ready_agent)) = 3 \<and>
   \<not> attempts lost_message
     (retries (\<lambda>_. True) 2 (routeMessage (\<lambda>_. True) lost_message ready_agent)) \<le> 2"
  by code_simp

text \<open>
  Before the listeners are registered, a routing failure is only emitted: the message is
  neither queued nor retried.
\<close>

lemma routing_error_before_setup:
  "\<not> routingSetUp m \<Longrightarrow> undeliverable delivers message m \<Longrightarrow>
   messageQueue (routeMessage delivers message m) = messageQueue m \<and>
   pendingRetries (routeMessage delivers message m) = pendingRetries m"
  by (auto simp: routeMessage_def Let_def emitRoutingError_def forward_def storeInHistory_def
        undeliverable_def split: option.splits)

end
